theory Spec2Isabelle
  imports Main "HOL-Library.Sublist"
begin

section \<open>Values exchanged with the outside world\<close>

text \<open>
  The application (\<open>src/app.py\<close>) is a Flask program that glues five external services
  together. Every call that leaves the process is modelled by a field of the record
  \<open>env\<close>, which scripts what the outside world answers during one request; every call
  made is appended to a trace of \<open>event\<close>s, so that properties of the order of the calls can be stated.

  Python text is modelled as \<open>string\<close>, one \<open>char\<close> per code point (the first 256 code
  points). An exception is modelled by a value of \<open>exn\<close>; \<open>str_exn\<close> stands for Python's
  \<open>str(e)\<close>. The wording of CPython's own messages is not modelled: a builtin exception is
  rendered by its class name.
\<close>

datatype exn =
    TypeError | KeyError | IndexError | AttributeError | EOFError | StructError
  | RuntimeError
  | WaveError string
  | FileNotFoundError
  | ExternalError string

fun str_exn :: "exn \<Rightarrow> string" where
  "str_exn TypeError = ''TypeError''"
| "str_exn KeyError = ''KeyError''"
| "str_exn IndexError = ''IndexError''"
| "str_exn AttributeError = ''AttributeError''"
| "str_exn EOFError = ''EOFError''"
| "str_exn StructError = ''StructError''"
| "str_exn RuntimeError = ''RuntimeError''"
| "str_exn (WaveError m) = m"
| "str_exn FileNotFoundError = ''FileNotFoundError''"
| "str_exn (ExternalError m) = m"

text \<open>
  A value decoded by \<open>json.loads\<close> or \<open>request.get_json()\<close>. \<open>JObj\<close> is the Python
  dict after decoding, read with \<open>map_of\<close>. Numbers are integers: a float takes the
  branches of an integer with the same truth value.
\<close>

datatype json =
    JNull | JBool bool | JNum int | JStr string
  | JArr "json list" | JObj "(string \<times> json) list"

text \<open>Python truthiness, as tested by \<open>if x\<close> and \<open>not x\<close>.\<close>

fun truthy :: "json \<Rightarrow> bool" where
  "truthy JNull = False"
| "truthy (JBool b) = b"
| "truthy (JNum n) = (n \<noteq> 0)"
| "truthy (JStr s) = (s \<noteq> [])"
| "truthy (JArr xs) = (xs \<noteq> [])"
| "truthy (JObj kvs) = (kvs \<noteq> [])"

text \<open>\<open>key in c\<close> for a string \<open>key\<close>.\<close>

fun py_contains :: "string \<Rightarrow> json \<Rightarrow> exn + bool" where
  "py_contains key (JObj kvs) = Inr (key \<in> set (map fst kvs))"
| "py_contains key (JArr xs) = Inr (JStr key \<in> set xs)"
| "py_contains key (JStr s) = Inr (sublist key s)"
| "py_contains key _ = Inl TypeError"

text \<open>\<open>c[key]\<close> for a string \<open>key\<close>.\<close>

fun py_getitem :: "json \<Rightarrow> string \<Rightarrow> exn + json" where
  "py_getitem (JObj kvs) key = (case map_of kvs key of None \<Rightarrow> Inl KeyError | Some v \<Rightarrow> Inr v)"
| "py_getitem _ key = Inl TypeError"

text \<open>\<open>c[0]\<close>. The keys of a decoded JSON object are strings, so \<open>0\<close> is never one.\<close>

fun py_getitem0 :: "json \<Rightarrow> exn + json" where
  "py_getitem0 (JArr []) = Inl IndexError"
| "py_getitem0 (JArr (x # xs)) = Inr x"
| "py_getitem0 (JStr []) = Inl IndexError"
| "py_getitem0 (JStr (c # cs)) = Inr (JStr [c])"
| "py_getitem0 (JObj kvs) = Inl KeyError"
| "py_getitem0 _ = Inl TypeError"

definition bind_exn :: "exn + 'a \<Rightarrow> ('a \<Rightarrow> exn + 'b) \<Rightarrow> exn + 'b" where
  "bind_exn m f = (case m of Inl e \<Rightarrow> Inl e | Inr x \<Rightarrow> f x)"

text \<open>\<open>str.isspace\<close> on the first 256 code points, and \<open>str.strip()\<close>.\<close>

definition is_space :: "char \<Rightarrow> bool" where
  "is_space c = (of_char c \<in> {9, 10, 11, 12, 13, 28, 29, 30, 31, 32, 133, 160 :: nat})"

definition strip :: "string \<Rightarrow> string" where
  "strip s = rev (dropWhile is_space (rev (dropWhile is_space s)))"

section \<open>The transcription job and the polling loop\<close>

text \<open>
  The part of \<open>job["TranscriptionJob"]\<close> that \<open>transcribe_audio\<close> reads. The keys
  \<open>Transcript.TranscriptFileUri\<close> and \<open>FailureReason\<close> may be absent.
\<close>

record job =
  TranscriptionJobStatus :: string
  TranscriptFileUri :: "string option"
  FailureReason :: "string option"

text \<open>
  The trace. \<open>Call\<dots>\<close> events record that a stage function of \<open>app.py\<close> was entered;
  the others record a request to an outside service.
\<close>

datatype event =
    CallValidate string
  | CallUpload string "string option" string
  | CallTranscribe string string string
  | CallCorrect string string
  | CallTranslate string json
  | CallTTS json json
  | S3Put string "string option" string
  | StartJob string string string
  | Poll nat
  | Sleep nat
  | FetchTranscript string
  | ReadOntology
  | Generate string
  | HttpPost string json
  | Speak string string json

text \<open>
  The object returned by \<open>model.generate_content\<close>: \<open>NoText\<close> when it is falsy or has
  no attribute \<open>text\<close>, \<open>TextRaises\<close> when reading \<open>text\<close> raises. \<open>hasattr\<close>
  (line 200) reads the attribute and swallows an \<open>AttributeError\<close>, and no other
  exception.
\<close>

datatype gen_response = NoText | TextRaises exn | Text string

text \<open>The reply of \<open>requests.post\<close>: its status code and the outcome of \<open>response.json()\<close>.\<close>

record http_response =
  status_code :: int
  body_json :: "exn + json"

datatype result_reason = SynthesizingAudioCompleted | Canceled | OtherReason

text \<open>
  What the outside world answers during one request.
  \<^item> \<open>bucket_name\<close>: the value of \<open>os.getenv("S3_BUCKET_NAME")\<close>, possibly \<open>None\<close>;
  \<^item> \<open>uuid4\<close>: the text of the UUID drawn in this request;
  \<^item> \<open>s3_upload_fileobj data bucket key\<close>: \<open>None\<close> on success, the exception otherwise;
  \<^item> \<open>start_transcription_job name uri language\<close>: likewise;
  \<^item> \<open>get_transcription_job name n\<close>: the answer to the \<open>n\<close>-th status request
    (counted from 0) for job \<open>name\<close>;
  \<^item> \<open>urlopen_json uri\<close>: the outcome of \<open>json.loads(urlopen(uri).read())\<close>;
  \<^item> \<open>read_ontology\<close>: the outcome of reading \<open>./Polyhouse Ontology.ttl\<close>;
  \<^item> \<open>generate_content prompt\<close>: the outcome of the Gemini call;
  \<^item> \<open>requests_post text target\<close>: the outcome of the Azure Translator request;
  \<^item> \<open>speech_config\<close>: \<open>None\<close> when \<open>SpeechConfig(\<dots>)\<close> is built, the exception otherwise;
  \<^item> \<open>speak_text voice path text\<close>: the outcome of building the synthesizer and of
    \<open>speak_text_async(text).get()\<close>.
\<close>

record env =
  bucket_name :: "string option"
  uuid4 :: string
  s3_upload_fileobj :: "string \<Rightarrow> string option \<Rightarrow> string \<Rightarrow> exn option"
  start_transcription_job :: "string \<Rightarrow> string \<Rightarrow> string \<Rightarrow> exn option"
  get_transcription_job :: "string \<Rightarrow> nat \<Rightarrow> exn + job"
  urlopen_json :: "string \<Rightarrow> exn + json"
  read_ontology :: "exn + string"
  generate_content :: "string \<Rightarrow> exn + gen_response"
  requests_post :: "string \<Rightarrow> json \<Rightarrow> exn + http_response"
  speech_config :: "exn option"
  speak_text :: "string \<Rightarrow> string \<Rightarrow> json \<Rightarrow> exn + result_reason"

text \<open>
  Lines 155-165: the transcript is taken from \<open>data["results"]["transcripts"][0]["transcript"]\<close>
  when the guard holds. \<open>Inr None\<close> is \<open>return None\<close>, \<open>Inl e\<close> an exception that
  leaves the loop.
\<close>

definition extract_transcript :: "json \<Rightarrow> exn + json option" where
  "extract_transcript data =
     bind_exn (py_contains ''results'' data) (\<lambda>has_results.
       if \<not> has_results then Inr None
       else bind_exn (py_getitem data ''results'') (\<lambda>results.
         bind_exn (py_contains ''transcripts'' results) (\<lambda>has_transcripts.
           if \<not> has_transcripts then Inr None
           else bind_exn (py_getitem results ''transcripts'') (\<lambda>transcripts.
             if \<not> truthy transcripts then Inr None
             else bind_exn (py_getitem0 transcripts) (\<lambda>first.
               bind_exn (py_getitem first ''transcript'') (\<lambda>text.
                 if truthy text then Inr (Some text) else Inr None))))))"

text \<open>Lines 148-165: the \<open>COMPLETED\<close> branch, with the calls it makes.\<close>

definition on_completed :: "env \<Rightarrow> job \<Rightarrow> (exn + json option) \<times> event list" where
  "on_completed env j =
     (case TranscriptFileUri j of
        None \<Rightarrow> (Inl KeyError, [])
      | Some transcript_uri \<Rightarrow>
          (bind_exn (urlopen_json env transcript_uri) extract_transcript,
           [FetchTranscript transcript_uri]))"

text \<open>
  Lines 143-172: \<open>while True\<close>. The loop has no bound, so it is a partial function:
  \<open>None\<close> means that it never returns. \<open>n\<close> counts the status requests made so far and
  \<open>tr\<close> is the trace so far.
\<close>

partial_function (option) poll_loop ::
  "env \<Rightarrow> string \<Rightarrow> nat \<Rightarrow> event list \<Rightarrow> ((exn + json option) \<times> event list) option"
where
  "poll_loop env job_name n tr =
     (case get_transcription_job env job_name n of
        Inl e \<Rightarrow> Some (Inl e, tr @ [Poll n])
      | Inr j \<Rightarrow>
          if TranscriptionJobStatus j = ''COMPLETED'' then
            (case on_completed env j of (r, evs) \<Rightarrow> Some (r, tr @ [Poll n] @ evs))
          else if TranscriptionJobStatus j = ''FAILED'' then
            Some (Inr None, tr @ [Poll n])
          else poll_loop env job_name (Suc n) (tr @ [Poll n, Sleep 5]))"

text \<open>
  Lines 132-176. The outer \<open>except Exception\<close> turns every exception into \<open>None\<close>.
\<close>

definition transcribe_audio ::
  "env \<Rightarrow> string \<Rightarrow> string \<Rightarrow> string \<Rightarrow> (json option \<times> event list) option"
where
  "transcribe_audio env job_name file_uri language_code =
     (case start_transcription_job env job_name file_uri language_code of
        Some e \<Rightarrow> Some (None, [StartJob job_name file_uri language_code])
      | None \<Rightarrow>
          map_option (\<lambda>(r, tr). (case r of Inl e \<Rightarrow> None | Inr v \<Rightarrow> v, tr))
            (poll_loop env job_name 0 [StartJob job_name file_uri language_code]))"

section \<open>WAV files: the part of Python's \<open>wave\<close> module that the program uses\<close>

text \<open>
  The \<open>wave\<close> module belongs to Python's standard library, not to the repository. It is
  modelled after CPython's \<open>wave.py\<close> and \<open>chunk.py\<close> (versions that accept PCM only):
  the writer as used by \<open>stop_recording\<close>, the reader as used by \<open>validate_wav_file\<close>.
  A file is the list of its bytes, written as a \<open>string\<close>; the local disk is the map
  \<open>files\<close> from paths to contents.
\<close>

fun le_encode :: "nat \<Rightarrow> nat \<Rightarrow> string" where
  "le_encode 0 v = []"
| "le_encode (Suc n) v = char_of (v mod 256) # le_encode n (v div 256)"

definition le_decode :: "string \<Rightarrow> nat" where
  "le_decode bs = foldr (\<lambda>c acc. of_char c + 256 * acc) bs 0"

text \<open>\<open>Wave_write._write_header\<close>, after \<open>_patchheader\<close>: 44 bytes.\<close>

definition wave_header :: "nat \<Rightarrow> nat \<Rightarrow> nat \<Rightarrow> nat \<Rightarrow> string" where
  "wave_header nchannels sampwidth framerate datalength =
     ''RIFF'' @ le_encode 4 (36 + datalength) @ ''WAVE'' @ ''fmt '' @ le_encode 4 16
     @ le_encode 2 1 @ le_encode 2 nchannels @ le_encode 4 framerate
     @ le_encode 4 (nchannels * framerate * sampwidth) @ le_encode 2 (nchannels * sampwidth)
     @ le_encode 2 (sampwidth * 8) @ ''data'' @ le_encode 4 datalength"

text \<open>
  Lines 374-378: the \<open>with wave.open(output_file, "wb")\<close> block, for one channel, two
  bytes per sample and 44100 frames per second. It yields the exception raised, if any,
  and the content the file is left with. \<open>struct.pack\<close> refuses a length field of
  \<open>2^32\<close> or more; then only the two \<open>RIFF\<close> tags written before each attempt remain.
\<close>

definition write_recorded_audio :: "string \<Rightarrow> exn option \<times> string" where
  "write_recorded_audio data =
     (let nframes = length data div (1 * 2);
          datalength = nframes * 1 * 2
      in if 36 + datalength \<ge> 2 ^ 32 then (Some StructError, ''RIFFRIFF'')
         else (None, wave_header 1 2 44100 (length data) @ data))"

text \<open>
  \<open>Chunk.read\<close>: \<open>n\<close> bytes at offset \<open>p\<close> of a chunk of declared size \<open>csz\<close> whose
  content on disk is \<open>body\<close> (which may be shorter than declared).
\<close>

definition chunk_read :: "string \<Rightarrow> nat \<Rightarrow> nat \<Rightarrow> nat \<Rightarrow> string" where
  "chunk_read body csz p n = take (min n (csz - p)) (drop p body)"

record wav_params =
  nchannels :: nat
  framerate :: nat
  sampwidth :: nat

text \<open>
  \<open>Wave_read._read_fmt_chunk\<close> for a \<open>fmt\<close> chunk of declared size \<open>sz\<close> whose content
  starts at offset \<open>c\<close> of the RIFF chunk.
\<close>

definition read_fmt_chunk :: "string \<Rightarrow> nat \<Rightarrow> nat \<Rightarrow> nat \<Rightarrow> exn + wav_params" where
  "read_fmt_chunk body rsz c sz =
     (let b14 = chunk_read body rsz c (min 14 sz) in
      if length b14 < 14 then Inl EOFError
      else if le_decode (take 2 b14) = 1 then
        (let b2 = chunk_read body rsz (c + 14) (min 2 (sz - 14)) in
         if length b2 < 2 then Inl EOFError
         else if (le_decode b2 + 7) div 8 = 0 then Inl (WaveError ''bad sample width'')
         else if le_decode (take 2 (drop 2 b14)) = 0 then Inl (WaveError ''bad # of channels'')
         else Inr \<lparr>nchannels = le_decode (take 2 (drop 2 b14)),
                   framerate = le_decode (take 4 (drop 4 b14)),
                   sampwidth = (le_decode b2 + 7) div 8\<rparr>)
      else Inl (WaveError ''unknown format''))"

text \<open>
  The loop of \<open>Wave_read.initfp\<close> over the chunks inside the RIFF chunk, from offset
  \<open>p\<close>; \<open>fmt\<close> holds the parameters once the \<open>fmt\<close> chunk has been read. On success it
  yields the parameters and the number of frames.
\<close>

function read_chunks :: "string \<Rightarrow> nat \<Rightarrow> nat \<Rightarrow> wav_params option \<Rightarrow> exn + wav_params \<times> nat" where
  "read_chunks body rsz p fmt =
     (let name = chunk_read body rsz p 4;
          szb = chunk_read body rsz (p + 4) 4;
          sz = le_decode szb;
          next = p + 8 + sz + sz mod 2
      in if length name < 4 \<or> length szb < 4 then
           Inl (WaveError ''fmt chunk and/or data chunk missing'')
         else if name = ''fmt '' then
           (case read_fmt_chunk body rsz (p + 8) sz of
              Inl e \<Rightarrow> Inl e
            | Inr ps \<Rightarrow> if next > rsz then Inl RuntimeError
                        else read_chunks body rsz next (Some ps))
         else if name = ''data'' then
           (case fmt of
              None \<Rightarrow> Inl (WaveError ''data chunk before fmt chunk'')
            | Some ps \<Rightarrow> Inr (ps, sz div (nchannels ps * sampwidth ps)))
         else if next > rsz then Inl RuntimeError
         else read_chunks body rsz next fmt)"
  by pat_completeness auto
termination
  by (relation "measure (\<lambda>(body, rsz, p, fmt). rsz - p)") (auto simp: chunk_read_def)

text \<open>\<open>wave.open(file, "rb")\<close> on the content \<open>bs\<close>.\<close>

definition wave_read :: "string \<Rightarrow> exn + wav_params \<times> nat" where
  "wave_read bs =
     (if length bs < 8 then Inl EOFError
      else if take 4 bs \<noteq> ''RIFF'' then Inl (WaveError ''file does not start with RIFF id'')
      else if chunk_read (drop 8 bs) (le_decode (take 4 (drop 4 bs))) 0 4 \<noteq> ''WAVE''
        then Inl (WaveError ''not a WAVE file'')
      else read_chunks (drop 8 bs) (le_decode (take 4 (drop 4 bs))) 4 None)"

section \<open>The stages of the pipeline\<close>

text \<open>
  Lines 108-118. Only \<open>wave.Error\<close> is caught: a missing file or a truncated header
  raises another exception, which leaves the function (\<open>Inl\<close>).
\<close>

definition validate_wav_file :: "(string \<rightharpoonup> string) \<Rightarrow> string \<Rightarrow> exn + bool" where
  "validate_wav_file files file_path =
     (case files file_path of
        None \<Rightarrow> Inl FileNotFoundError
      | Some bs \<Rightarrow>
          (case wave_read bs of
             Inl (WaveError m) \<Rightarrow> Inr False
           | Inl e \<Rightarrow> Inl e
           | Inr ps \<Rightarrow> Inr True))"

text \<open>Lines 120-130. Every exception is caught and becomes \<open>False\<close>.\<close>

definition upload_to_s3 ::
  "env \<Rightarrow> (string \<rightharpoonup> string) \<Rightarrow> string \<Rightarrow> string option \<Rightarrow> string \<Rightarrow> bool \<times> event list" where
  "upload_to_s3 env files file_path bucket object_name =
     (case files file_path of
        None \<Rightarrow> (False, [])
      | Some file_data \<Rightarrow>
          (case s3_upload_fileobj env file_data bucket object_name of
             Some e \<Rightarrow> (False, [S3Put file_path bucket object_name])
           | None \<Rightarrow> (True, [S3Put file_path bucket object_name])))"

text \<open>Lines 71-106: the language tables, and \<open>dict.get(key, default)\<close> on them.\<close>

definition SUPPORTED_INPUT_LANGUAGES :: "(string \<times> string) list" where
  "SUPPORTED_INPUT_LANGUAGES =
     [(''te-IN'', ''Telugu''), (''hi-IN'', ''Hindi''), (''ta-IN'', ''Tamil''),
      (''en-US'', ''English''), (''ml-IN'', ''Malayalam''), (''kn-IN'', ''Kannada'')]"

definition SUPPORTED_OUTPUT_LANGUAGES :: "(string \<times> string) list" where
  "SUPPORTED_OUTPUT_LANGUAGES =
     [(''ta'', ''Tamil''), (''te'', ''Telugu''), (''hi'', ''Hindi''), (''ml'', ''Malayalam''),
      (''kn'', ''Kannada''), (''mr'', ''Marathi''), (''gu'', ''Gujarati''), (''bn'', ''Bengali''),
      (''pa'', ''Punjabi''), (''en'', ''English'')]"

definition AZURE_TTS_VOICES :: "(string \<times> string) list" where
  "AZURE_TTS_VOICES =
     [(''ta'', ''ta-IN-Pallavi''), (''te'', ''te-IN-Chitra''), (''hi'', ''hi-IN-Kalpana''),
      (''ml'', ''ml-IN-Sobhana''), (''kn'', ''kn-IN-Sapna''), (''mr'', ''mr-IN-Aarohi''),
      (''gu'', ''gu-IN-Niranjan''), (''bn'', ''bn-IN-Bashkar''), (''pa'', ''pa-IN-Baldev''),
      (''en'', ''en-US-Aria'')]"

text \<open>
  \<open>d.get(key, default)\<close> for a dict with string keys and a key that came out of a JSON
  body: a list or an object is unhashable and raises \<open>TypeError\<close>; any other value
  that is not a string is no key of \<open>d\<close>.
\<close>

fun dict_get :: "(string \<times> 'v) list \<Rightarrow> json \<Rightarrow> 'v \<Rightarrow> exn + 'v" where
  "dict_get d (JStr k) dflt = Inr (case map_of d k of None \<Rightarrow> dflt | Some v \<Rightarrow> v)"
| "dict_get d (JArr xs) dflt = Inl TypeError"
| "dict_get d (JObj kvs) dflt = Inl TypeError"
| "dict_get d _ dflt = Inr dflt"

definition language_name :: "string \<Rightarrow> string" where
  "language_name source_lang =
     (case map_of SUPPORTED_INPUT_LANGUAGES source_lang of
        None \<Rightarrow> ''unknown language'' | Some n \<Rightarrow> n)"

text \<open>Lines 184-195: the f-string, piece by piece.\<close>

definition prompt_instructions :: "string \<Rightarrow> string" where
  "prompt_instructions name =
     ''\<newline>        I'' @ [CHR 0x27] @ ''ll give you an ontology file and a '' @ name
     @ '' text. The '' @ name
     @ '' text might have errors related to specific terms in the ontology.\<newline>''
     @ ''\<newline>        First, analyze the ontology file to understand its domain and key terms.\<newline>''
     @ ''        Then, examine the '' @ name
     @ '' text for words that might be misused or misspelled based on context.\<newline>''
     @ ''        Finally, return ONLY the corrected English translation. Don'' @ [CHR 0x27]
     @ ''t include any explanations or additional text.\<newline>''"

definition build_prompt :: "string \<Rightarrow> string \<Rightarrow> string \<Rightarrow> string" where
  "build_prompt onto source_lang source_text =
     prompt_instructions (language_name source_lang)
     @ ''\<newline>        Ontology file:\<newline>        '' @ onto
     @ ''\<newline>\<newline>        Tamil text: '' @ source_text @ ''\<newline>        ''"

text \<open>Lines 178-210. Every failure comes back as a string that starts with \<open>Error:\<close>.\<close>

definition correct_and_translate :: "env \<Rightarrow> string \<Rightarrow> string \<Rightarrow> string \<times> event list" where
  "correct_and_translate env source_text source_lang =
     (case read_ontology env of
        Inl e \<Rightarrow> (''Error: '' @ str_exn e, [ReadOntology])
      | Inr onto \<Rightarrow>
          (let prompt = build_prompt onto source_lang source_text;
               tr = [ReadOntology, Generate prompt]
           in case generate_content env prompt of
                Inl e \<Rightarrow> (''Error: '' @ str_exn e, tr)
              | Inr NoText \<Rightarrow> (''Error: No valid translation received.'', tr)
              | Inr (TextRaises e) \<Rightarrow>
                  (if e = AttributeError then ''Error: No valid translation received.''
                   else ''Error: '' @ str_exn e, tr)
              | Inr (Text t) \<Rightarrow> (strip t, tr)))"

text \<open>
  Lines 212-245. On status 200 the result is whatever
  \<open>response.json()[0]["translations"][0]["text"]\<close> holds; every failure is again a string
  that starts with \<open>Error:\<close>.
\<close>

definition translate_to_target_language :: "env \<Rightarrow> string \<Rightarrow> json \<Rightarrow> json \<times> event list" where
  "translate_to_target_language env english_text target_lang =
     (let tr = [HttpPost english_text target_lang]
      in case requests_post env english_text target_lang of
           Inl e \<Rightarrow> (JStr (''Error: '' @ str_exn e), tr)
         | Inr response \<Rightarrow>
             if status_code response = 200 then
               (case bind_exn (body_json response) (\<lambda>body.
                       bind_exn (py_getitem0 body) (\<lambda>first.
                       bind_exn (py_getitem first ''translations'') (\<lambda>translations.
                       bind_exn (py_getitem0 translations) (\<lambda>t.
                       py_getitem t ''text'')))) of
                  Inl e \<Rightarrow> (JStr (''Error: '' @ str_exn e), tr)
                | Inr translated_text \<Rightarrow> (translated_text, tr))
             else (JStr ''Error: Translation failed.'', tr))"

text \<open>Lines 247-278. Every failure is \<open>None\<close>.\<close>

definition text_to_speech :: "env \<Rightarrow> json \<Rightarrow> json \<Rightarrow> string option \<times> event list" where
  "text_to_speech env text target_lang =
     (case speech_config env of
        Some e \<Rightarrow> (None, [])
      | None \<Rightarrow>
          (case dict_get AZURE_TTS_VOICES target_lang ''en-US-Aria'' of
             Inl e \<Rightarrow> (None, [])
           | Inr voice \<Rightarrow>
               (let audio_filename = ''output_'' @ uuid4 env @ ''.wav'';
                    audio_path = ''static/audio/'' @ audio_filename;
                    tr = [Speak voice audio_path text]
                in case speak_text env voice audio_path text of
                     Inl e \<Rightarrow> (None, tr)
                   | Inr reason \<Rightarrow>
                       if reason = SynthesizingAudioCompleted
                       then (Some (''/static/audio/'' @ audio_filename), tr)
                       else (None, tr))))"

section \<open>The session and the orchestrator\<close>

text \<open>
  Lines 64-68: the global variables, together with the local disk. \<open>audio_frames\<close> is
  the list of captured chunks.
\<close>

record state =
  current_session_id :: "string option"
  current_english_text :: "string option"
  is_recording :: bool
  audio_frames :: "string list"
  files :: "string \<rightharpoonup> string"

type_synonym response = "(string \<times> json) list"

definition error_response :: "string \<Rightarrow> response" where
  "error_response message = [(''status'', JStr ''error''), (''message'', JStr message)]"

text \<open>The \<open>except Exception as e\<close> handlers: \<open>"Error: " + str(e)\<close>.\<close>

definition exception_response :: "exn \<Rightarrow> response" where
  "exception_response e = error_response (''Error: '' @ str_exn e)"

definition py_str :: "string option \<Rightarrow> string" where
  "py_str v = (case v of None \<Rightarrow> ''None'' | Some x \<Rightarrow> x)"

text \<open>
  Lines 303-314: what follows a usable transcript. \<open>tr\<close> is the trace so far.
\<close>

definition correction_stage ::
  "env \<Rightarrow> string \<Rightarrow> string \<Rightarrow> state \<Rightarrow> event list \<Rightarrow> response \<times> state \<times> event list" where
  "correction_stage env source_text input_language s tr =
     (case correct_and_translate env source_text input_language of
        (english_text, evs) \<Rightarrow>
          (let tr' = tr @ [CallCorrect source_text input_language] @ evs
           in if english_text = [] then
                (error_response ''Translation to English failed'', s, tr')
              else
                ([(''status'', JStr ''success''), (''source_text'', JStr source_text),
                  (''english_text'', JStr english_text)],
                 s\<lparr>current_english_text := Some english_text\<rparr>, tr')))"

text \<open>
  Lines 298-301: the test \<open>not source_text or not source_text.strip()\<close> on what
  \<open>transcribe_audio\<close> returned. A value that is true but not a string has no \<open>strip\<close>:
  the \<open>AttributeError\<close> reaches the handler of line 316.
\<close>

definition transcript_stage ::
  "env \<Rightarrow> json option \<Rightarrow> string \<Rightarrow> state \<Rightarrow> event list \<Rightarrow> response \<times> state \<times> event list" where
  "transcript_stage env source_text input_language s tr =
     (case source_text of
        None \<Rightarrow> (error_response ''Transcription failed'', s, tr)
      | Some v \<Rightarrow>
          if \<not> truthy v then (error_response ''Transcription failed'', s, tr)
          else (case v of
                  JStr txt \<Rightarrow>
                    if strip txt = [] then (error_response ''Transcription failed'', s, tr)
                    else correction_stage env txt input_language s tr
                | _ \<Rightarrow> (exception_response AttributeError, s, tr)))"

text \<open>
  Lines 289-314: what follows a valid WAV file. The session id is assigned before the
  upload. \<open>None\<close> means that the polling loop never returns.
\<close>

definition pipeline ::
  "env \<Rightarrow> string \<Rightarrow> string \<Rightarrow> state \<Rightarrow> event list \<Rightarrow> (response \<times> state \<times> event list) option" where
  "pipeline env audio_path input_language s tr =
     (let session_id = uuid4 env;
          s1 = s\<lparr>current_session_id := Some session_id\<rparr>;
          s3_file_name = session_id @ ''.wav'';
          s3_uri = ''s3://'' @ py_str (bucket_name env) @ ''/'' @ s3_file_name
      in case upload_to_s3 env (files s1) audio_path (bucket_name env) s3_file_name of
           (uploaded, up_evs) \<Rightarrow>
             (let tr1 = tr @ [CallUpload audio_path (bucket_name env) s3_file_name] @ up_evs
              in if \<not> uploaded then Some (error_response ''Failed to upload to S3'', s1, tr1)
                 else
                   (case transcribe_audio env session_id s3_uri input_language of
                      None \<Rightarrow> None
                    | Some (source_text, t_evs) \<Rightarrow>
                        Some (transcript_stage env source_text input_language s1
                                (tr1 @ [CallTranscribe session_id s3_uri input_language] @ t_evs)))))"

text \<open>Lines 280-318.\<close>

definition process_audio ::
  "env \<Rightarrow> string \<Rightarrow> string \<Rightarrow> state \<Rightarrow> (response \<times> state \<times> event list) option" where
  "process_audio env audio_path input_language s =
     (case validate_wav_file (files s) audio_path of
        Inl e \<Rightarrow> Some (exception_response e, s, [CallValidate audio_path])
      | Inr valid \<Rightarrow>
          if \<not> valid then Some (error_response ''Invalid WAV file'', s, [CallValidate audio_path])
          else pipeline env audio_path input_language s [CallValidate audio_path])"

section \<open>The routes\<close>

text \<open>
  Lines 362-388. \<open>form_language\<close> is the form field \<open>input_language\<close>, if present.
\<close>

definition stop_recording ::
  "env \<Rightarrow> string option \<Rightarrow> state \<Rightarrow> (response \<times> state \<times> event list) option" where
  "stop_recording env form_language s =
     (let s0 = s\<lparr>is_recording := False\<rparr>;
          output_file = ''uploads/recorded_audio.wav''
      in case write_recorded_audio (concat (audio_frames s0)) of
           (raised, content) \<Rightarrow>
             (let s1 = s0\<lparr>files := (files s0)(output_file \<mapsto> content)\<rparr>
              in case raised of
                   Some e \<Rightarrow> Some (exception_response e, s1, [])
                 | None \<Rightarrow>
                     process_audio env output_file
                       (case form_language of None \<Rightarrow> ''te-IN'' | Some l \<Rightarrow> l) s1))"

text \<open>
  \<open>data.get(key)\<close> on the decoded body: only a dict has \<open>get\<close>; a missing key gives
  \<open>None\<close>.
\<close>

fun body_get :: "json \<Rightarrow> string \<Rightarrow> exn + json" where
  "body_get (JObj kvs) key = Inr (case map_of kvs key of None \<Rightarrow> JNull | Some v \<Rightarrow> v)"
| "body_get _ key = Inl AttributeError"

text \<open>
  Lines 390-415. \<open>body\<close> is the outcome of \<open>request.get_json()\<close>. The state is returned
  as it came.
\<close>

definition translate_to_language ::
  "env \<Rightarrow> exn + json \<Rightarrow> state \<Rightarrow> response \<times> state \<times> event list" where
  "translate_to_language env body s =
     (case bind_exn body (\<lambda>data. body_get data ''target_language'') of
        Inl e \<Rightarrow> (exception_response e, s, [])
      | Inr target_language \<Rightarrow>
          (case current_english_text s of
             None \<Rightarrow> (error_response ''No English text available for translation'', s, [])
           | Some english_text \<Rightarrow>
               if english_text = [] then
                 (error_response ''No English text available for translation'', s, [])
               else if \<not> truthy target_language then
                 (error_response ''No target language specified'', s, [])
               else
                 (case translate_to_target_language env english_text target_language of
                    (translated_text, evs) \<Rightarrow>
                      (let tr = [CallTranslate english_text target_language] @ evs
                       in if truthy translated_text then
                            (case dict_get (map (\<lambda>(k, v). (k, JStr v)) SUPPORTED_OUTPUT_LANGUAGES)
                                    target_language target_language of
                               Inl e \<Rightarrow> (exception_response e, s, tr)
                             | Inr name \<Rightarrow>
                                 ([(''status'', JStr ''success''),
                                   (''translated_text'', translated_text),
                                   (''target_language'', name)], s, tr))
                          else (error_response ''Translation failed'', s, tr)))))"

text \<open>Lines 417-439.\<close>

definition text_to_speech_route ::
  "env \<Rightarrow> exn + json \<Rightarrow> state \<Rightarrow> response \<times> state \<times> event list" where
  "text_to_speech_route env body s =
     (case bind_exn body (\<lambda>data.
             bind_exn (body_get data ''text'') (\<lambda>text.
             bind_exn (body_get data ''target_language'') (\<lambda>target_language.
             Inr (text, target_language)))) of
        Inl e \<Rightarrow> (exception_response e, s, [])
      | Inr (text, target_language) \<Rightarrow>
          if \<not> truthy text \<or> \<not> truthy target_language then
            (error_response ''Text and target language are required'', s, [])
          else
            (case text_to_speech env text target_language of
               (audio_url, evs) \<Rightarrow>
                 (let tr = [CallTTS text target_language] @ evs
                  in case audio_url of
                       Some url \<Rightarrow>
                         ([(''status'', JStr ''success''), (''audio_url'', JStr url)], s, tr)
                     | None \<Rightarrow>
                         (error_response ''Text-to-speech conversion failed'', s, tr))))"

text \<open>
  A sequence of requests, each with the answers the outside world gives while it is
  served. (\<open>/start-recording\<close> blocks in the capture loop and is left out.)
\<close>

datatype request =
    StopRecording "string option"
  | TranslateToLanguage "exn + json"
  | TextToSpeech "exn + json"

fun handle :: "env \<Rightarrow> request \<Rightarrow> state \<Rightarrow> (response \<times> state \<times> event list) option" where
  "handle env (StopRecording form_language) s = stop_recording env form_language s"
| "handle env (TranslateToLanguage body) s = Some (translate_to_language env body s)"
| "handle env (TextToSpeech body) s = Some (text_to_speech_route env body s)"

fun run :: "(env \<times> request) list \<Rightarrow> state \<Rightarrow> ((response \<times> event list) list \<times> state) option" where
  "run [] s = Some ([], s)"
| "run ((env, rq) # rest) s =
     (case handle env rq s of
        None \<Rightarrow> None
      | Some (r, s', tr) \<Rightarrow>
          (case run rest s' of
             None \<Rightarrow> None
           | Some (outs, s'') \<Rightarrow> Some ((r, tr) # outs, s'')))"

definition status :: "response \<Rightarrow> json option" where
  "status r = map_of r ''status''"

section \<open>Properties of the polling loop\<close>

text \<open>
  An answer to a status request is non-terminal when it carries a status other than
  \<open>COMPLETED\<close> and \<open>FAILED\<close>. (An answer that is an exception is not: it leaves the
  loop through \<open>except\<close>.)
\<close>

definition non_terminal :: "exn + job \<Rightarrow> bool" where
  "non_terminal a = (case a of Inl e \<Rightarrow> False
     | Inr j \<Rightarrow> TranscriptionJobStatus j \<noteq> ''COMPLETED'' \<and> TranscriptionJobStatus j \<noteq> ''FAILED'')"

definition terminal :: "exn + job \<Rightarrow> bool" where
  "terminal a = (case a of Inl e \<Rightarrow> False
     | Inr j \<Rightarrow> TranscriptionJobStatus j = ''COMPLETED'' \<or> TranscriptionJobStatus j = ''FAILED'')"

text \<open>The status requests \<open>n, \<dots>, k - 1\<close>, each followed by the 5-second sleep.\<close>

definition sleep_and_poll :: "nat \<Rightarrow> nat \<Rightarrow> event list" where
  "sleep_and_poll n k = concat (map (\<lambda>i. [Poll i, Sleep 5]) [n..<k])"

definition is_poll_or_sleep :: "event \<Rightarrow> bool" where
  "is_poll_or_sleep ev = (case ev of Poll i \<Rightarrow> True | Sleep d \<Rightarrow> True | _ \<Rightarrow> False)"

text \<open>What the loop returns, and the calls it makes, at the status request that ends it.\<close>

definition last_poll :: "env \<Rightarrow> nat \<Rightarrow> exn + job \<Rightarrow> (exn + json option) \<times> event list" where
  "last_poll env k a = (case a of
       Inl e \<Rightarrow> (Inl e, [Poll k])
     | Inr j \<Rightarrow> if TranscriptionJobStatus j = ''COMPLETED''
                then (fst (on_completed env j), Poll k # snd (on_completed env j))
                else (Inr None, [Poll k]))"

section \<open>A scripted outside world, for concrete runs\<close>

text \<open>
  \<open>demo_env\<close>: every service works; the transcription job is in progress at the first
  two status requests and completed at the third; the transcript is \<open>vanakkam\<close>.
\<close>

definition transcript_payload :: "string \<Rightarrow> json" where
  "transcript_payload t =
     JObj [(''jobName'', JStr ''job''),
           (''results'', JObj [(''transcripts'', JArr [JObj [(''transcript'', JStr t)]]),
                               (''items'', JArr [])]),
           (''status'', JStr ''COMPLETED'')]"

definition demo_job :: "string \<Rightarrow> job" where
  "demo_job st = \<lparr>TranscriptionJobStatus = st,
                  TranscriptFileUri = (if st = ''COMPLETED'' then Some ''https://s3/transcript.json'' else None),
                  FailureReason = (if st = ''FAILED'' then Some ''bad audio'' else None)\<rparr>"

definition demo_env :: env where
  "demo_env =
     \<lparr>bucket_name = Some ''bucket'',
      uuid4 = ''0f8fad5b-d9cb-469f-a165-70867728950e'',
      s3_upload_fileobj = (\<lambda>file_data bucket key. None),
      start_transcription_job = (\<lambda>name uri language. None),
      get_transcription_job =
        (\<lambda>name n. Inr (demo_job (if n < 2 then ''IN_PROGRESS'' else ''COMPLETED''))),
      urlopen_json = (\<lambda>uri. Inr (transcript_payload ''vanakkam'')),
      read_ontology = Inr ''@prefix : <urn:polyhouse#> .'',
      generate_content = (\<lambda>prompt. Inr (Text '' Hello\<newline>'')),
      requests_post =
        (\<lambda>text target. Inr \<lparr>status_code = 200,
           body_json = Inr (JArr [JObj [(''translations'',
                              JArr [JObj [(''text'', JStr ''namaste''), (''to'', target)]])]])\<rparr>),
      speech_config = None,
      speak_text = (\<lambda>voice path text. Inr SynthesizingAudioCompleted)\<rparr>"

definition idle_state :: state where
  "idle_state =
     \<lparr>current_session_id = None, current_english_text = None, is_recording = False,
      audio_frames = [], files = Map.empty\<rparr>"

text \<open>The file that \<open>stop_recording\<close> writes when no frame was captured: a header and no data.\<close>

definition zero_frame_wav :: string where
  "zero_frame_wav =
     ''RIFF'' @ [CHR 0x24, CHR 0x00, CHR 0x00, CHR 0x00] @ ''WAVEfmt ''
        @ [CHR 0x10, CHR 0x00, CHR 0x00, CHR 0x00, CHR 0x01, CHR 0x00, CHR 0x01, CHR 0x00,
           CHR 0x44, CHR 0xAC, CHR 0x00, CHR 0x00, CHR 0x88, CHR 0x58, CHR 0x01, CHR 0x00,
           CHR 0x02, CHR 0x00, CHR 0x10, CHR 0x00] @ ''data'' @ [CHR 0x00, CHR 0x00, CHR 0x00, CHR 0x00]"

text \<open>The calls of the four stage functions within a trace.\<close>

definition is_stage_call :: "event \<Rightarrow> bool" where
  "is_stage_call ev =
     (case ev of CallValidate p \<Rightarrow> True | CallUpload p b k \<Rightarrow> True
               | CallTranscribe n u l \<Rightarrow> True | CallCorrect t l \<Rightarrow> True | _ \<Rightarrow> False)"

definition stage_calls :: "event list \<Rightarrow> event list" where
  "stage_calls tr = filter is_stage_call tr"

text \<open>Line 292: the location handed to the transcription service.\<close>

definition s3_uri_of :: "env \<Rightarrow> string" where
  "s3_uri_of env = ''s3://'' @ py_str (bucket_name env) @ ''/'' @ uuid4 env @ ''.wav''"

text \<open>States and outside worlds for concrete runs.\<close>

definition recorded_state :: state where
  "recorded_state = idle_state\<lparr>files := [''uploads/recorded_audio.wav'' \<mapsto> zero_frame_wav]\<rparr>"

definition junk_state :: state where
  "junk_state = idle_state\<lparr>files := [''uploads/recorded_audio.wav'' \<mapsto> ''not a wave file'']\<rparr>"

definition s3_down_env :: env where
  "s3_down_env = demo_env\<lparr>s3_upload_fileobj := (\<lambda>file_data bucket key. Some (ExternalError ''S3 is down''))\<rparr>"

text \<open>Line 156: \<open>data["results"]["transcripts"][0]["transcript"]\<close>.\<close>

definition first_transcript :: "json \<Rightarrow> exn + json" where
  "first_transcript data =
     bind_exn (py_getitem data ''results'') (\<lambda>results.
       bind_exn (py_getitem results ''transcripts'') (\<lambda>transcripts.
         bind_exn (py_getitem0 transcripts) (\<lambda>first. py_getitem first ''transcript'')))"

text \<open>\<open>silence_env t\<close>: as \<open>demo_env\<close>, but the transcript is \<open>t\<close>.\<close>

definition silence_env :: "string \<Rightarrow> env" where
  "silence_env t = demo_env\<lparr>urlopen_json := (\<lambda>uri. Inr (transcript_payload t))\<rparr>"

text \<open>
  Outside worlds in which one service fails: the model answers with white space only;
  the call of the model raises; the translation service answers with status 500.
\<close>

definition blank_model_env :: env where
  "blank_model_env = demo_env\<lparr>generate_content := (\<lambda>prompt. Inr (Text '' \<newline>''))\<rparr>"

definition gemini_down_env :: env where
  "gemini_down_env =
     demo_env\<lparr>generate_content := (\<lambda>prompt. Inl (ExternalError ''503 Service Unavailable''))\<rparr>"

definition azure_down_env :: env where
  "azure_down_env =
     demo_env\<lparr>requests_post :=
       (\<lambda>text target. Inr \<lparr>status_code = 500,
                             body_json = Inr (JObj [(''error'', JStr ''Internal Server Error'')])\<rparr>)\<rparr>"

text \<open>
  The state that a successful \<open>/stop-recording\<close> leaves in the world of \<open>demo_env\<close>, and
  requests that follow it: a translation, a speech synthesis, a recording whose upload
  fails, and another translation.
\<close>

definition hello_state :: state where
  "hello_state =
     idle_state\<lparr>files := [''uploads/recorded_audio.wav'' \<mapsto> zero_frame_wav],
                current_session_id := Some ''0f8fad5b-d9cb-469f-a165-70867728950e'',
                current_english_text := Some ''Hello''\<rparr>"

definition session_requests :: "(env \<times> request) list" where
  "session_requests =
     [(demo_env, TranslateToLanguage (Inr (JObj [(''target_language'', JStr ''hi'')]))),
      (demo_env, TextToSpeech (Inr (JObj [(''text'', JStr ''namaste''),
                                          (''target_language'', JStr ''hi'')]))),
      (s3_down_env, StopRecording None),
      (demo_env, TranslateToLanguage (Inr (JObj [(''target_language'', JStr ''ta'')])))]"

text \<open>An outside world in which the transcription job stays in progress for ever.\<close>

definition stuck_env :: env where
  "stuck_env = demo_env\<lparr>get_transcription_job := (\<lambda>name n. Inr (demo_job ''IN_PROGRESS''))\<rparr>"

section \<open>Proofs\<close>

subsection \<open>The polling loop\<close>

lemma poll_loop_stop:
  "\<not> non_terminal (get_transcription_job env name n) \<Longrightarrow>
   poll_loop env name n tr =
     Some (fst (last_poll env n (get_transcription_job env name n)),
           tr @ snd (last_poll env n (get_transcription_job env name n)))"
  by (subst poll_loop.simps)
     (auto simp: non_terminal_def last_poll_def split: sum.splits prod.splits)

lemma poll_loop_step:
  "non_terminal (get_transcription_job env name n) \<Longrightarrow>
   poll_loop env name n tr = poll_loop env name (Suc n) (tr @ [Poll n, Sleep 5])"
  by (subst poll_loop.simps) (auto simp: non_terminal_def split: sum.splits)

lemma sleep_and_poll_first:
  "n < k \<Longrightarrow> sleep_and_poll n k = [Poll n, Sleep 5] @ sleep_and_poll (Suc n) k"
  by (simp add: sleep_and_poll_def upt_conv_Cons)

lemma poll_loop_reaches:
  assumes "\<forall>i. n \<le> i \<and> i < k \<longrightarrow> non_terminal (get_transcription_job env name i)"
      and "n \<le> k"
      and "\<not> non_terminal (get_transcription_job env name k)"
  shows "poll_loop env name n tr =
     Some (fst (last_poll env k (get_transcription_job env name k)),
           tr @ sleep_and_poll n k @ snd (last_poll env k (get_transcription_job env name k)))"
  using assms
proof (induction "k - n" arbitrary: n tr)
  case 0
  then have "n = k" by simp
  then show ?case using 0 by (simp add: poll_loop_stop sleep_and_poll_def)
next
  case (Suc d)
  then have lt: "n < k" by simp
  then have nt: "non_terminal (get_transcription_job env name n)" using Suc.prems by simp
  have "poll_loop env name (Suc n) (tr @ [Poll n, Sleep 5]) =
     Some (fst (last_poll env k (get_transcription_job env name k)),
           (tr @ [Poll n, Sleep 5]) @ sleep_and_poll (Suc n) k @ snd (last_poll env k (get_transcription_job env name k)))"
    using Suc.hyps Suc.prems lt by (intro Suc.hyps(1)) auto
  moreover have "poll_loop env name n tr = poll_loop env name (Suc n) (tr @ [Poll n, Sleep 5])"
    using nt by (rule poll_loop_step)
  moreover have "sleep_and_poll n k = [Poll n, Sleep 5] @ sleep_and_poll (Suc n) k"
    using lt by (rule sleep_and_poll_first)
  ultimately show ?case by simp
qed

lemma poll_loop_Some_stops:
  assumes "poll_loop env name n tr = Some y"
  shows "\<exists>k\<ge>n. \<not> non_terminal (get_transcription_job env name k)"
  using assms
proof (induction env name n tr y rule: poll_loop.raw_induct[rotated 1, consumes 1])
  case (1 f env name n tr y)
  show ?case
  proof (cases "non_terminal (get_transcription_job env name n)")
    case False
    then show ?thesis by blast
  next
    case True
    then obtain j where j: "get_transcription_job env name n = Inr j"
        "TranscriptionJobStatus j \<noteq> ''COMPLETED''" "TranscriptionJobStatus j \<noteq> ''FAILED''"
      by (cases "get_transcription_job env name n") (simp_all add: non_terminal_def)
    have "f env name (Suc n) (tr @ [Poll n, Sleep 5]) = Some y"
      using 1(2) j by simp
    from 1(1)[OF this] obtain k where k: "Suc n \<le> k" "\<not> non_terminal (get_transcription_job env name k)"
      by blast
    from k(1) have "n \<le> k" by simp
    with k(2) show ?thesis by blast
  qed
qed

lemma first_stop:
  assumes "n \<le> k" "\<not> non_terminal (get_transcription_job env name k)"
  shows "\<exists>k'\<ge>n. (\<forall>i. n \<le> i \<and> i < k' \<longrightarrow> non_terminal (get_transcription_job env name i))
           \<and> \<not> non_terminal (get_transcription_job env name k')"
proof -
  define Q where "Q j = (n \<le> j \<and> \<not> non_terminal (get_transcription_job env name j))" for j
  have "Q k" using assms by (simp add: Q_def)
  then have "Q (LEAST j. Q j)" by (rule LeastI)
  moreover have "\<And>i. i < (LEAST j. Q j) \<Longrightarrow> \<not> Q i" by (rule not_less_Least)
  ultimately show ?thesis unfolding Q_def by blast
qed

lemma last_poll_events:
  "\<exists>evs. snd (last_poll env k a) = Poll k # evs \<and> \<not> (\<exists>ev\<in>set evs. is_poll_or_sleep ev)"
  by (auto simp: last_poll_def on_completed_def is_poll_or_sleep_def split: sum.splits option.splits)

lemma terminal_not_non_terminal: "terminal a \<Longrightarrow> \<not> non_terminal a"
  by (auto simp: terminal_def non_terminal_def split: sum.splits)

text \<open>The loop by itself, from request 0 and any trace so far.\<close>

lemma poll_loop_first_terminal:
  "((\<forall>i<k. non_terminal (get_transcription_job env name i))
      \<and> terminal (get_transcription_job env name k)
     \<longrightarrow> (\<exists>r evs. poll_loop env name 0 tr = Some (r, tr @ sleep_and_poll 0 k @ Poll k # evs)
                  \<and> \<not> (\<exists>ev\<in>set evs. is_poll_or_sleep ev)))
   \<and> (\<forall>r tr'. poll_loop env name 0 tr = Some (r, tr')
     \<longrightarrow> (\<exists>m evs. tr' = tr @ sleep_and_poll 0 m @ Poll m # evs
                  \<and> (\<forall>i<m. non_terminal (get_transcription_job env name i))
                  \<and> \<not> non_terminal (get_transcription_job env name m)
                  \<and> \<not> (\<exists>ev\<in>set evs. is_poll_or_sleep ev)))"
proof (intro conjI impI allI)
  assume h: "(\<forall>i<k. non_terminal (get_transcription_job env name i))
      \<and> terminal (get_transcription_job env name k)"
  then have "\<not> non_terminal (get_transcription_job env name k)"
    by (simp add: terminal_not_non_terminal)
  with h have run: "poll_loop env name 0 tr =
     Some (fst (last_poll env k (get_transcription_job env name k)),
           tr @ sleep_and_poll 0 k @ snd (last_poll env k (get_transcription_job env name k)))"
    by (intro poll_loop_reaches) auto
  obtain evs where "snd (last_poll env k (get_transcription_job env name k)) = Poll k # evs"
      "\<not> (\<exists>ev\<in>set evs. is_poll_or_sleep ev)"
    using last_poll_events by blast
  with run show "\<exists>r evs. poll_loop env name 0 tr = Some (r, tr @ sleep_and_poll 0 k @ Poll k # evs)
                  \<and> \<not> (\<exists>ev\<in>set evs. is_poll_or_sleep ev)"
    by auto
next
  fix r tr'
  assume ret: "poll_loop env name 0 tr = Some (r, tr')"
  from poll_loop_Some_stops[OF this] obtain k0 where "\<not> non_terminal (get_transcription_job env name k0)"
    by blast
  from first_stop[of 0 k0 env name, OF _ this] obtain m where
      m: "\<forall>i. 0 \<le> i \<and> i < m \<longrightarrow> non_terminal (get_transcription_job env name i)"
         "\<not> non_terminal (get_transcription_job env name m)"
    by auto
  have run: "poll_loop env name 0 tr =
     Some (fst (last_poll env m (get_transcription_job env name m)),
           tr @ sleep_and_poll 0 m @ snd (last_poll env m (get_transcription_job env name m)))"
    using m by (intro poll_loop_reaches) auto
  obtain evs where evs: "snd (last_poll env m (get_transcription_job env name m)) = Poll m # evs"
      "\<not> (\<exists>ev\<in>set evs. is_poll_or_sleep ev)"
    using last_poll_events by blast
  from run ret evs(1) have "tr' = tr @ sleep_and_poll 0 m @ Poll m # evs" by simp
  with m evs(2) show "\<exists>m evs. tr' = tr @ sleep_and_poll 0 m @ Poll m # evs
                  \<and> (\<forall>i<m. non_terminal (get_transcription_job env name i))
                  \<and> \<not> non_terminal (get_transcription_job env name m)
                  \<and> \<not> (\<exists>ev\<in>set evs. is_poll_or_sleep ev)"
    by auto
qed

lemma transcribe_audio_started:
  "start_transcription_job env name uri lang = None \<Longrightarrow>
   transcribe_audio env name uri lang =
     map_option (\<lambda>(r, tr). (case r of Inl e \<Rightarrow> None | Inr v \<Rightarrow> v, tr))
       (poll_loop env name 0 [StartJob name uri lang])"
  by (simp add: transcribe_audio_def)

lemma transcribe_audio_not_started:
  "start_transcription_job env name uri lang = Some e \<Longrightarrow>
   transcribe_audio env name uri lang = Some (None, [StartJob name uri lang])"
  by (simp add: transcribe_audio_def)

text \<open>
  C4. Every execution of \<open>transcribe_audio\<close> that starts the job enters the polling
  loop once, at status request 0, and returns exactly at the first status request that
  is answered with \<open>COMPLETED\<close> or \<open>FAILED\<close>: if the requests \<open>0, \<dots>, k - 1\<close> are
  answered with other statuses and request \<open>k\<close> with a terminal one, the function
  returns, and its trace is the start of the job, \<open>k\<close> times a status request followed
  by the 5-second sleep, then status request \<open>k\<close>, then no further status request and
  no further sleep. Conversely, whenever the function returns, either the job could not
  be started and nothing was polled, or its trace has this shape for some \<open>m\<close>, every
  request before the \<open>m\<close>-th was answered with a non-terminal status, and the \<open>m\<close>-th
  was not.
\<close>

theorem transcribe_audio_returns_at_first_terminal_status:
  "(start_transcription_job env name uri lang = None
      \<and> (\<forall>i<k. non_terminal (get_transcription_job env name i))
      \<and> terminal (get_transcription_job env name k)
     \<longrightarrow> (\<exists>src evs. transcribe_audio env name uri lang =
                        Some (src, StartJob name uri lang # sleep_and_poll 0 k @ Poll k # evs)
                  \<and> \<not> (\<exists>ev\<in>set evs. is_poll_or_sleep ev)))
   \<and> (\<forall>src tr. transcribe_audio env name uri lang = Some (src, tr)
     \<longrightarrow> (start_transcription_job env name uri lang \<noteq> None \<and> tr = [StartJob name uri lang])
         \<or> (\<exists>m evs. tr = StartJob name uri lang # sleep_and_poll 0 m @ Poll m # evs
                  \<and> (\<forall>i<m. non_terminal (get_transcription_job env name i))
                  \<and> \<not> non_terminal (get_transcription_job env name m)
                  \<and> \<not> (\<exists>ev\<in>set evs. is_poll_or_sleep ev)))"
proof (intro conjI impI allI)
  assume h: "start_transcription_job env name uri lang = None
      \<and> (\<forall>i<k. non_terminal (get_transcription_job env name i))
      \<and> terminal (get_transcription_job env name k)"
  then have "(\<forall>i<k. non_terminal (get_transcription_job env name i))
      \<and> terminal (get_transcription_job env name k)" by simp
  from poll_loop_first_terminal[THEN conjunct1, rule_format, OF this, of "[StartJob name uri lang]"]
  obtain r evs where
      run: "poll_loop env name 0 [StartJob name uri lang] =
              Some (r, [StartJob name uri lang] @ sleep_and_poll 0 k @ Poll k # evs)"
      and evs: "\<not> (\<exists>ev\<in>set evs. is_poll_or_sleep ev)"
    by blast
  from h run have "transcribe_audio env name uri lang =
      Some (case r of Inl e \<Rightarrow> None | Inr v \<Rightarrow> v,
            StartJob name uri lang # sleep_and_poll 0 k @ Poll k # evs)"
    by (simp add: transcribe_audio_started)
  with evs show "\<exists>src evs. transcribe_audio env name uri lang =
                        Some (src, StartJob name uri lang # sleep_and_poll 0 k @ Poll k # evs)
                  \<and> \<not> (\<exists>ev\<in>set evs. is_poll_or_sleep ev)"
    by blast
next
  fix src tr
  assume ret: "transcribe_audio env name uri lang = Some (src, tr)"
  show "(start_transcription_job env name uri lang \<noteq> None \<and> tr = [StartJob name uri lang])
         \<or> (\<exists>m evs. tr = StartJob name uri lang # sleep_and_poll 0 m @ Poll m # evs
                  \<and> (\<forall>i<m. non_terminal (get_transcription_job env name i))
                  \<and> \<not> non_terminal (get_transcription_job env name m)
                  \<and> \<not> (\<exists>ev\<in>set evs. is_poll_or_sleep ev))"
  proof (cases "start_transcription_job env name uri lang")
    case (Some e)
    with ret show ?thesis by (simp add: transcribe_audio_not_started)
  next
    case None
    with ret obtain r where
        run: "poll_loop env name 0 [StartJob name uri lang] = Some (r, tr)"
      by (auto simp: transcribe_audio_started split: prod.splits)
    from poll_loop_first_terminal[THEN conjunct2, rule_format, OF run]
    obtain m evs where m: "tr = [StartJob name uri lang] @ sleep_and_poll 0 m @ Poll m # evs"
        "\<forall>i<m. non_terminal (get_transcription_job env name i)"
        "\<not> non_terminal (get_transcription_job env name m)"
        "\<not> (\<exists>ev\<in>set evs. is_poll_or_sleep ev)"
      by blast
    from m(1) have "tr = StartJob name uri lang # sleep_and_poll 0 m @ Poll m # evs" by simp
    with m(2-4) show ?thesis by (intro disjI2 exI[of _ m] exI[of _ evs] conjI)
  qed
qed

theorem transcribe_audio_returns_at_first_terminal_status_witness:
  "start_transcription_job demo_env ''job'' ''s3://bucket/job.wav'' ''ta-IN'' = None
   \<and> non_terminal (get_transcription_job demo_env ''job'' 0)
   \<and> non_terminal (get_transcription_job demo_env ''job'' 1)
   \<and> terminal (get_transcription_job demo_env ''job'' 2)
   \<and> transcribe_audio demo_env ''job'' ''s3://bucket/job.wav'' ''ta-IN'' =
       Some (Some (JStr ''vanakkam''),
             [StartJob ''job'' ''s3://bucket/job.wav'' ''ta-IN'',
              Poll 0, Sleep 5, Poll 1, Sleep 5, Poll 2,
              FetchTranscript ''https://s3/transcript.json''])
   \<and> (\<exists>m evs. [StartJob ''job'' ''s3://bucket/job.wav'' ''ta-IN'',
                 Poll 0, Sleep 5, Poll 1, Sleep 5, Poll 2,
                 FetchTranscript ''https://s3/transcript.json'']
                  = StartJob ''job'' ''s3://bucket/job.wav'' ''ta-IN''
                      # sleep_and_poll 0 m @ Poll m # evs
              \<and> \<not> (\<exists>ev\<in>set evs. is_poll_or_sleep ev))"
proof -
  have s: "start_transcription_job demo_env ''job'' ''s3://bucket/job.wav'' ''ta-IN'' = None"
    by (simp add: demo_env_def)
  have h: "(\<forall>i<2. non_terminal (get_transcription_job demo_env ''job'' i))
           \<and> terminal (get_transcription_job demo_env ''job'' 2)"
    by (simp add: demo_env_def demo_job_def non_terminal_def terminal_def)
  have nt: "\<not> non_terminal (get_transcription_job demo_env ''job'' 2)"
    by (simp add: demo_env_def demo_job_def non_terminal_def)
  have "poll_loop demo_env ''job'' 0 [StartJob ''job'' ''s3://bucket/job.wav'' ''ta-IN''] =
     Some (fst (last_poll demo_env 2 (get_transcription_job demo_env ''job'' 2)),
           [StartJob ''job'' ''s3://bucket/job.wav'' ''ta-IN''] @ sleep_and_poll 0 2
             @ snd (last_poll demo_env 2 (get_transcription_job demo_env ''job'' 2)))"
    using h nt by (intro poll_loop_reaches) auto
  moreover have "sleep_and_poll 0 2 = [Poll 0, Sleep 5, Poll 1, Sleep 5]"
    by (simp add: sleep_and_poll_def upt_rec numeral_2_eq_2)
  moreover have "last_poll demo_env 2 (get_transcription_job demo_env ''job'' 2) =
      (Inr (Some (JStr ''vanakkam'')), [Poll 2, FetchTranscript ''https://s3/transcript.json''])"
    by (simp add: last_poll_def on_completed_def demo_env_def demo_job_def bind_exn_def
          extract_transcript_def transcript_payload_def)
  ultimately have "poll_loop demo_env ''job'' 0 [StartJob ''job'' ''s3://bucket/job.wav'' ''ta-IN''] =
       Some (Inr (Some (JStr ''vanakkam'')),
             [StartJob ''job'' ''s3://bucket/job.wav'' ''ta-IN'',
              Poll 0, Sleep 5, Poll 1, Sleep 5, Poll 2,
              FetchTranscript ''https://s3/transcript.json''])"
    by simp
  with s have run: "transcribe_audio demo_env ''job'' ''s3://bucket/job.wav'' ''ta-IN'' =
       Some (Some (JStr ''vanakkam''),
             [StartJob ''job'' ''s3://bucket/job.wav'' ''ta-IN'',
              Poll 0, Sleep 5, Poll 1, Sleep 5, Poll 2,
              FetchTranscript ''https://s3/transcript.json''])"
    by (simp add: transcribe_audio_started)
  from transcribe_audio_returns_at_first_terminal_status
         [THEN conjunct2, rule_format, OF run]
  have ex: "\<exists>m evs. [StartJob ''job'' ''s3://bucket/job.wav'' ''ta-IN'',
                 Poll 0, Sleep 5, Poll 1, Sleep 5, Poll 2,
                 FetchTranscript ''https://s3/transcript.json'']
                  = StartJob ''job'' ''s3://bucket/job.wav'' ''ta-IN''
                      # sleep_and_poll 0 m @ Poll m # evs
              \<and> \<not> (\<exists>ev\<in>set evs. is_poll_or_sleep ev)"
  proof (elim disjE exE conjE)
    assume "start_transcription_job demo_env ''job'' ''s3://bucket/job.wav'' ''ta-IN'' \<noteq> None"
    with s show ?thesis by simp
  next
    fix m evs
    assume "[StartJob ''job'' ''s3://bucket/job.wav'' ''ta-IN'',
                 Poll 0, Sleep 5, Poll 1, Sleep 5, Poll 2,
                 FetchTranscript ''https://s3/transcript.json'']
                  = StartJob ''job'' ''s3://bucket/job.wav'' ''ta-IN''
                      # sleep_and_poll 0 m @ Poll m # evs"
      and "\<forall>i<m. non_terminal (get_transcription_job demo_env ''job'' i)"
      and "\<not> non_terminal (get_transcription_job demo_env ''job'' m)"
      and "\<not> (\<exists>ev\<in>set evs. is_poll_or_sleep ev)"
    then show ?thesis by (intro exI[of _ m] exI[of _ evs] conjI)
  qed
  from h have n0: "non_terminal (get_transcription_job demo_env ''job'' 0)"
      and n1: "non_terminal (get_transcription_job demo_env ''job'' 1)"
      and t2: "terminal (get_transcription_job demo_env ''job'' 2)"
    by simp_all
  show ?thesis by (intro conjI) (rule s n0 n1 t2 run ex)+
qed

subsection \<open>The zero-frame WAV file\<close>

lemma le_encode_2: "le_encode 2 v = [char_of v, char_of (v div 256)]"
proof -
  have "le_encode (Suc (Suc 0)) v = [char_of v, char_of (v div 256)]" by simp
  then show ?thesis by (simp add: numeral_2_eq_2)
qed

lemma le_encode_4:
  "le_encode 4 v = [char_of v, char_of (v div 256), char_of (v div 256 div 256),
                    char_of (v div 256 div 256 div 256)]"
proof -
  have "le_encode (Suc (Suc (Suc (Suc 0)))) v =
      [char_of v, char_of (v div 256), char_of (v div 256 div 256),
       char_of (v div 256 div 256 div 256)]" by simp
  moreover have e: "(4::nat) = Suc (Suc (Suc (Suc 0)))" by simp
  ultimately show ?thesis by (subst e) simp
qed

lemma write_zero_frames: "write_recorded_audio [] = (None, zero_frame_wav)"
  by (simp add: write_recorded_audio_def wave_header_def le_encode_2 le_encode_4
        zero_frame_wav_def char_of_def bit_Suc_0_iff)

lemma wave_read_zero:
  "wave_read zero_frame_wav = Inr (\<lparr>nchannels = 1, framerate = 44100, sampwidth = 2\<rparr>, 0)"
  apply (simp add: wave_read_def zero_frame_wav_def chunk_read_def le_decode_def)
  apply (subst read_chunks.simps)
  apply (simp add: chunk_read_def le_decode_def read_fmt_chunk_def Let_def)
  done

subsection \<open>The prompt of the correction stage\<close>

lemma sublist_mid: "ys = ps @ xs @ ss \<Longrightarrow> sublist xs ys"
  by (auto simp: sublist_def)

lemma prompt_instructions_name: "sublist name (prompt_instructions name @ rest)"
  by (rule sublist_mid[where ps = "''\<newline>        I'' @ [CHR 0x27] @ ''ll give you an ontology file and a ''"])
     (simp add: prompt_instructions_def)

lemma prompt_instructions_errors:
  "sublist ''might have errors related to specific terms in the ontology''
     (prompt_instructions name @ rest)"
  by (rule sublist_mid[where ps = "''\<newline>        I'' @ [CHR 0x27] @ ''ll give you an ontology file and a ''
          @ name @ '' text. The '' @ name @ '' text ''"])
     (simp add: prompt_instructions_def)

lemma prompt_instructions_only:
  "sublist ''return ONLY the corrected English translation''
     (prompt_instructions name @ rest)"
  by (rule sublist_mid[where ps = "''\<newline>        I'' @ [CHR 0x27] @ ''ll give you an ontology file and a ''
          @ name @ '' text. The '' @ name
          @ '' text might have errors related to specific terms in the ontology.\<newline>''
          @ ''\<newline>        First, analyze the ontology file to understand its domain and key terms.\<newline>''
          @ ''        Then, examine the '' @ name
          @ '' text for words that might be misused or misspelled based on context.\<newline>''
          @ ''        Finally, ''"])
     (simp add: prompt_instructions_def)

lemma correct_and_translate_prompt:
  "read_ontology env = Inr onto \<Longrightarrow>
   snd (correct_and_translate env source_text source_lang) =
     [ReadOntology, Generate (build_prompt onto source_lang source_text)]"
  by (simp add: correct_and_translate_def Let_def split: sum.splits gen_response.splits)

text \<open>
  C8. For every source language code, the prompt that \<open>correct_and_translate\<close> sends to
  the model is made of the instructions, which name the source language by its display
  name (\<open>unknown language\<close> for a code outside the table) and ask for the correction of
  terms of the ontology and for the English translation only, then the content of the
  ontology file, then the source text, which is labelled \<open>Tamil text:\<close> whatever the
  source language is.
\<close>

theorem prompt_labels_source_text_as_Tamil:
  "(\<exists>pre. build_prompt onto source_lang source_text =
        pre @ ''Ontology file:\<newline>        '' @ onto
            @ ''\<newline>\<newline>        Tamil text: '' @ source_text @ ''\<newline>        ''
      \<and> sublist (case map_of SUPPORTED_INPUT_LANGUAGES source_lang of
                   None \<Rightarrow> ''unknown language'' | Some n \<Rightarrow> n) pre
      \<and> sublist ''might have errors related to specific terms in the ontology'' pre
      \<and> sublist ''return ONLY the corrected English translation'' pre)
   \<and> (read_ontology env = Inr onto \<longrightarrow>
        snd (correct_and_translate env source_text source_lang) =
          [ReadOntology, Generate (build_prompt onto source_lang source_text)])"
proof (intro conjI impI)
  let ?pre = "prompt_instructions (language_name source_lang) @ ''\<newline>        ''"
  have "build_prompt onto source_lang source_text =
        ?pre @ ''Ontology file:\<newline>        '' @ onto
            @ ''\<newline>\<newline>        Tamil text: '' @ source_text @ ''\<newline>        ''"
    by (simp add: build_prompt_def)
  moreover have "sublist (case map_of SUPPORTED_INPUT_LANGUAGES source_lang of
                   None \<Rightarrow> ''unknown language'' | Some n \<Rightarrow> n) ?pre"
    using prompt_instructions_name[of "language_name source_lang"]
    by (simp add: language_name_def)
  moreover have "sublist ''might have errors related to specific terms in the ontology'' ?pre"
    by (rule prompt_instructions_errors)
  moreover have "sublist ''return ONLY the corrected English translation'' ?pre"
    by (rule prompt_instructions_only)
  ultimately show "\<exists>pre. build_prompt onto source_lang source_text =
        pre @ ''Ontology file:\<newline>        '' @ onto
            @ ''\<newline>\<newline>        Tamil text: '' @ source_text @ ''\<newline>        ''
      \<and> sublist (case map_of SUPPORTED_INPUT_LANGUAGES source_lang of
                   None \<Rightarrow> ''unknown language'' | Some n \<Rightarrow> n) pre
      \<and> sublist ''might have errors related to specific terms in the ontology'' pre
      \<and> sublist ''return ONLY the corrected English translation'' pre"
    by blast
next
  assume "read_ontology env = Inr onto"
  then show "snd (correct_and_translate env source_text source_lang) =
          [ReadOntology, Generate (build_prompt onto source_lang source_text)]"
    by (rule correct_and_translate_prompt)
qed

theorem prompt_labels_source_text_as_Tamil_witness:
  "read_ontology demo_env = Inr ''@prefix : <urn:polyhouse#> .''
   \<and> snd (correct_and_translate demo_env ''namaste'' ''hi-IN'') =
       [ReadOntology, Generate (build_prompt ''@prefix : <urn:polyhouse#> .'' ''hi-IN'' ''namaste'')]
   \<and> (\<exists>pre. build_prompt ''@prefix : <urn:polyhouse#> .'' ''hi-IN'' ''namaste'' =
        pre @ ''Ontology file:\<newline>        '' @ ''@prefix : <urn:polyhouse#> .''
            @ ''\<newline>\<newline>        Tamil text: '' @ ''namaste'' @ ''\<newline>        ''
      \<and> sublist ''Hindi'' pre)"
proof -
  have h: "read_ontology demo_env = Inr ''@prefix : <urn:polyhouse#> .''"
    by (simp add: demo_env_def)
  have m: "(case map_of SUPPORTED_INPUT_LANGUAGES ''hi-IN'' of
                   None \<Rightarrow> ''unknown language'' | Some n \<Rightarrow> n) = ''Hindi''"
    by (simp add: SUPPORTED_INPUT_LANGUAGES_def)
  from prompt_labels_source_text_as_Tamil[of "''@prefix : <urn:polyhouse#> .''" "''hi-IN''" "''namaste''" demo_env] h m
  show ?thesis by auto
qed

subsection \<open>Speech synthesis\<close>

lemma text_to_speech_cases:
  "text_to_speech env text target_lang =
     (if speech_config env = None
         \<and> (\<exists>voice. dict_get AZURE_TTS_VOICES target_lang ''en-US-Aria'' = Inr voice
               \<and> speak_text env voice (''static/audio/output_'' @ uuid4 env @ ''.wav'') text
                    = Inr SynthesizingAudioCompleted)
      then (Some (''/static/audio/output_'' @ uuid4 env @ ''.wav''),
            snd (text_to_speech env text target_lang))
      else (None, snd (text_to_speech env text target_lang)))"
  by (auto simp: text_to_speech_def Let_def split: option.splits sum.splits)

lemma text_to_speech_voice:
  "Speak voice path t \<in> set (snd (text_to_speech env text target_lang)) \<Longrightarrow>
   dict_get AZURE_TTS_VOICES target_lang ''en-US-Aria'' = Inr voice"
  by (auto simp: text_to_speech_def Let_def split: option.splits sum.splits if_splits)

lemma dict_get_voice:
  "dict_get AZURE_TTS_VOICES target_lang ''en-US-Aria'' = Inr voice \<Longrightarrow>
   voice = (case target_lang of
              JStr k \<Rightarrow> (case map_of AZURE_TTS_VOICES k of None \<Rightarrow> ''en-US-Aria'' | Some v \<Rightarrow> v)
            | _ \<Rightarrow> ''en-US-Aria'')"
  by (cases target_lang) auto

text \<open>
  C9. For every input, \<open>text_to_speech\<close> returns either \<open>None\<close> or the path
  \<open>/static/audio/output_<uuid>.wav\<close>; it returns the path exactly when the speech
  configuration is built, the voice lookup does not raise and the synthesis ends with
  \<open>SynthesizingAudioCompleted\<close>, so every failure, cancellation and exception gives
  \<open>None\<close> and never a string. The voice handed to the synthesizer is the entry of
  \<open>AZURE_TTS_VOICES\<close> for the target language, and \<open>en-US-Aria\<close> when there is none.
\<close>

theorem text_to_speech_url_or_None:
  "(fst (text_to_speech env text target_lang) = None
      \<or> fst (text_to_speech env text target_lang)
           = Some (''/static/audio/output_'' @ uuid4 env @ ''.wav''))
   \<and> (fst (text_to_speech env text target_lang) \<noteq> None \<longleftrightarrow>
        speech_config env = None
        \<and> (\<exists>voice. dict_get AZURE_TTS_VOICES target_lang ''en-US-Aria'' = Inr voice
              \<and> speak_text env voice (''static/audio/output_'' @ uuid4 env @ ''.wav'') text
                   = Inr SynthesizingAudioCompleted))
   \<and> (\<forall>voice path t. Speak voice path t \<in> set (snd (text_to_speech env text target_lang)) \<longrightarrow>
        voice = (case target_lang of
                   JStr k \<Rightarrow> (case map_of AZURE_TTS_VOICES k of
                                None \<Rightarrow> ''en-US-Aria'' | Some v \<Rightarrow> v)
                 | _ \<Rightarrow> ''en-US-Aria''))"
proof (intro conjI allI impI)
  show "fst (text_to_speech env text target_lang) = None
      \<or> fst (text_to_speech env text target_lang)
           = Some (''/static/audio/output_'' @ uuid4 env @ ''.wav'')"
    by (subst (1 2) text_to_speech_cases) simp
  show "fst (text_to_speech env text target_lang) \<noteq> None \<longleftrightarrow>
        speech_config env = None
        \<and> (\<exists>voice. dict_get AZURE_TTS_VOICES target_lang ''en-US-Aria'' = Inr voice
              \<and> speak_text env voice (''static/audio/output_'' @ uuid4 env @ ''.wav'') text
                   = Inr SynthesizingAudioCompleted)"
    by (subst text_to_speech_cases) simp
next
  fix voice path t
  assume "Speak voice path t \<in> set (snd (text_to_speech env text target_lang))"
  then have "dict_get AZURE_TTS_VOICES target_lang ''en-US-Aria'' = Inr voice"
    by (rule text_to_speech_voice)
  then show "voice = (case target_lang of
                   JStr k \<Rightarrow> (case map_of AZURE_TTS_VOICES k of
                                None \<Rightarrow> ''en-US-Aria'' | Some v \<Rightarrow> v)
                 | _ \<Rightarrow> ''en-US-Aria'')"
    by (rule dict_get_voice)
qed

theorem text_to_speech_url_or_None_witness:
  "text_to_speech demo_env (JStr ''Hello'') (JStr ''hi'') =
     (Some ''/static/audio/output_0f8fad5b-d9cb-469f-a165-70867728950e.wav'',
      [Speak ''hi-IN-Kalpana'' ''static/audio/output_0f8fad5b-d9cb-469f-a165-70867728950e.wav''
         (JStr ''Hello'')])
   \<and> fst (text_to_speech (demo_env\<lparr>speak_text := (\<lambda>voice path text. Inr Canceled)\<rparr>)
            (JStr ''Hello'') (JStr ''xx'')) = None
   \<and> snd (text_to_speech (demo_env\<lparr>speak_text := (\<lambda>voice path text. Inr Canceled)\<rparr>)
            (JStr ''Hello'') (JStr ''xx''))
       = [Speak ''en-US-Aria'' ''static/audio/output_0f8fad5b-d9cb-469f-a165-70867728950e.wav''
            (JStr ''Hello'')]"
proof -
  have a: "text_to_speech demo_env (JStr ''Hello'') (JStr ''hi'') =
     (Some ''/static/audio/output_0f8fad5b-d9cb-469f-a165-70867728950e.wav'',
      [Speak ''hi-IN-Kalpana'' ''static/audio/output_0f8fad5b-d9cb-469f-a165-70867728950e.wav''
         (JStr ''Hello'')])"
    by (simp add: text_to_speech_def demo_env_def AZURE_TTS_VOICES_def Let_def)
  have b: "snd (text_to_speech (demo_env\<lparr>speak_text := (\<lambda>voice path text. Inr Canceled)\<rparr>)
            (JStr ''Hello'') (JStr ''xx''))
       = [Speak ''en-US-Aria'' ''static/audio/output_0f8fad5b-d9cb-469f-a165-70867728950e.wav''
            (JStr ''Hello'')]"
    by (simp add: text_to_speech_def demo_env_def AZURE_TTS_VOICES_def Let_def)
  have c: "\<not> (speech_config (demo_env\<lparr>speak_text := (\<lambda>voice path text. Inr Canceled)\<rparr>) = None
        \<and> (\<exists>voice. dict_get AZURE_TTS_VOICES (JStr ''xx'') ''en-US-Aria'' = Inr voice
              \<and> speak_text (demo_env\<lparr>speak_text := (\<lambda>voice path text. Inr Canceled)\<rparr>) voice
                   (''static/audio/output_''
                      @ uuid4 (demo_env\<lparr>speak_text := (\<lambda>voice path text. Inr Canceled)\<rparr>) @ ''.wav'')
                   (JStr ''Hello'') = Inr SynthesizingAudioCompleted))"
    by simp
  from text_to_speech_url_or_None[of "demo_env\<lparr>speak_text := (\<lambda>voice path text. Inr Canceled)\<rparr>"
        "JStr ''Hello''" "JStr ''xx''"] c
  have "fst (text_to_speech (demo_env\<lparr>speak_text := (\<lambda>voice path text. Inr Canceled)\<rparr>)
            (JStr ''Hello'') (JStr ''xx'')) = None"
    by blast
  with a b show ?thesis by blast
qed

subsection \<open>The route \<open>/translate-to-language\<close>\<close>

text \<open>
  C7, as stated, fails: the handler reads the body (lines 393-394) before it looks at
  the session, so a request whose body is JSON but no object (here the empty array) is
  answered by the handler of line 413 (\<open>list\<close> has no \<open>get\<close>), with a message that
  starts with \<open>Error:\<close>, not with the message about the missing text.
\<close>

theorem no_english_text_not_for_every_request:
  "current_english_text idle_state = None
   \<and> translate_to_language demo_env (Inr (JArr [])) idle_state =
       (exception_response AttributeError, idle_state, [])
   \<and> fst (translate_to_language demo_env (Inr (JArr [])) idle_state) \<noteq>
       [(''status'', JStr ''error''),
        (''message'', JStr ''No English text available for translation'')]"
  by (simp add: translate_to_language_def bind_exn_def idle_state_def exception_response_def
        error_response_def)

text \<open>
  C7, amended. For every request to \<open>/translate-to-language\<close> whose body decodes to a
  JSON object, made while \<open>current_english_text\<close> is unset, the response is
  \<open>{"status": "error", "message": "No English text available for translation"}\<close>,
  whatever the object holds (so the check comes before the one for a missing target
  language), the session is left as it was, and the trace is empty (so the translation
  client is not called).
\<close>

theorem no_english_text_checked_first:
  assumes "body = Inr (JObj kvs)" and "current_english_text s = None"
  shows "translate_to_language env body s =
           ([(''status'', JStr ''error''),
             (''message'', JStr ''No English text available for translation'')], s, [])"
  using assms by (simp add: translate_to_language_def bind_exn_def error_response_def)

theorem no_english_text_checked_first_witness:
  "current_english_text idle_state = None
   \<and> translate_to_language demo_env (Inr (JObj [])) idle_state =
           ([(''status'', JStr ''error''),
             (''message'', JStr ''No English text available for translation'')], idle_state, [])
   \<and> translate_to_language demo_env (Inr (JObj [(''target_language'', JStr ''hi'')])) idle_state =
           ([(''status'', JStr ''error''),
             (''message'', JStr ''No English text available for translation'')], idle_state, [])"
proof -
  have h: "current_english_text idle_state = None" by (simp add: idle_state_def)
  from no_english_text_checked_first[OF refl h, of demo_env "[]"]
       no_english_text_checked_first[OF refl h, of demo_env "[(''target_language'', JStr ''hi'')]"] h
  show ?thesis by simp
qed

subsection \<open>The orchestrator: helper facts\<close>

lemma process_audio_invalid:
  "validate_wav_file (files s) p = Inr False \<Longrightarrow>
   process_audio env p lang s = Some (error_response ''Invalid WAV file'', s, [CallValidate p])"
  by (simp add: process_audio_def)

lemma process_audio_valid:
  "validate_wav_file (files s) p = Inr True \<Longrightarrow>
   process_audio env p lang s = pipeline env p lang s [CallValidate p]"
  by (simp add: process_audio_def)

lemma process_audio_raises:
  "validate_wav_file (files s) p = Inl e \<Longrightarrow>
   process_audio env p lang s = Some (exception_response e, s, [CallValidate p])"
  by (simp add: process_audio_def)

lemma upload_events:
  "set (snd (upload_to_s3 env fs p b k)) \<subseteq> {S3Put p b k}"
  by (auto simp: upload_to_s3_def split: option.splits)

lemma pipeline_upload_fails:
  "\<not> fst (upload_to_s3 env (files s) p (bucket_name env) (uuid4 env @ ''.wav'')) \<Longrightarrow>
   pipeline env p lang s tr =
     Some (error_response ''Failed to upload to S3'',
           s\<lparr>current_session_id := Some (uuid4 env)\<rparr>,
           tr @ [CallUpload p (bucket_name env) (uuid4 env @ ''.wav'')]
              @ snd (upload_to_s3 env (files s) p (bucket_name env) (uuid4 env @ ''.wav'')))"
  by (cases "upload_to_s3 env (files s) p (bucket_name env) (uuid4 env @ ''.wav'')")
     (simp add: pipeline_def Let_def)

lemma pipeline_upload_ok:
  "fst (upload_to_s3 env (files s) p (bucket_name env) (uuid4 env @ ''.wav'')) \<Longrightarrow>
   pipeline env p lang s tr =
     (case transcribe_audio env (uuid4 env) (s3_uri_of env) lang of
        None \<Rightarrow> None
      | Some (source_text, t_evs) \<Rightarrow>
          Some (transcript_stage env source_text lang (s\<lparr>current_session_id := Some (uuid4 env)\<rparr>)
                  (tr @ [CallUpload p (bucket_name env) (uuid4 env @ ''.wav'')]
                      @ snd (upload_to_s3 env (files s) p (bucket_name env) (uuid4 env @ ''.wav''))
                      @ [CallTranscribe (uuid4 env) (s3_uri_of env) lang] @ t_evs)))"
  by (cases "upload_to_s3 env (files s) p (bucket_name env) (uuid4 env @ ''.wav'')")
     (simp add: pipeline_def Let_def s3_uri_of_def split: option.splits)

lemma status_error_response [simp]: "status (error_response m) = Some (JStr ''error'')"
  by (simp add: status_def error_response_def)

lemma status_exception_response [simp]: "status (exception_response e) = Some (JStr ''error'')"
  by (simp add: exception_response_def)

lemma stage_calls_append [simp]: "stage_calls (xs @ ys) = stage_calls xs @ stage_calls ys"
  by (simp add: stage_calls_def)

lemma stage_calls_Nil [simp]: "stage_calls [] = []"
  by (simp add: stage_calls_def)

lemma stage_calls_Cons [simp]:
  "stage_calls (ev # evs) = (if is_stage_call ev then ev # stage_calls evs else stage_calls evs)"
  by (simp add: stage_calls_def)

lemma stage_calls_upload [simp]: "stage_calls (snd (upload_to_s3 env fs p b k)) = []"
  by (auto simp: upload_to_s3_def stage_calls_def is_stage_call_def split: option.splits)

lemma stage_calls_correct [simp]: "stage_calls (snd (correct_and_translate env t l)) = []"
  by (auto simp: correct_and_translate_def stage_calls_def is_stage_call_def Let_def
      split: sum.splits gen_response.splits)

lemma stage_calls_correct_evs:
  "correct_and_translate env t l = (e, evs) \<Longrightarrow> stage_calls evs = []"
  using stage_calls_correct[of env t l] by simp

lemma stage_calls_on_completed [simp]: "stage_calls (snd (on_completed env j)) = []"
  by (auto simp: on_completed_def stage_calls_def is_stage_call_def split: option.splits)

lemma poll_loop_stage_calls:
  assumes "poll_loop env name n tr = Some y"
  shows "stage_calls (snd y) = stage_calls tr"
  using assms
proof (induction env name n tr y rule: poll_loop.raw_induct[rotated 1, consumes 1])
  case (1 f env name n tr y)
  show ?case
  proof (cases "get_transcription_job env name n")
    case (Inl e)
    with 1(2) show ?thesis by (auto simp: stage_calls_def is_stage_call_def)
  next
    case (Inr j)
    show ?thesis
    proof (cases "TranscriptionJobStatus j = ''COMPLETED''")
      case True
      with Inr 1(2) have "snd y = tr @ [Poll n] @ snd (on_completed env j)"
        by (auto split: prod.splits)
      then show ?thesis by (simp add: is_stage_call_def)
    next
      case nc: False
      show ?thesis
      proof (cases "TranscriptionJobStatus j = ''FAILED''")
        case True
        with nc Inr 1(2) show ?thesis by (auto simp: stage_calls_def is_stage_call_def)
      next
        case False
        with nc Inr 1(2) have "f env name (Suc n) (tr @ [Poll n, Sleep 5]) = Some y" by simp
        from 1(1)[OF this] show ?thesis by (simp add: stage_calls_def is_stage_call_def)
      qed
    qed
  qed
qed

lemma transcribe_audio_stage_calls:
  "transcribe_audio env name uri lang = Some (src, evs) \<Longrightarrow> stage_calls evs = []"
proof -
  assume a: "transcribe_audio env name uri lang = Some (src, evs)"
  show ?thesis
  proof (cases "start_transcription_job env name uri lang")
    case (Some e)
    with a show ?thesis by (auto simp: transcribe_audio_def stage_calls_def is_stage_call_def)
  next
    case None
    with a obtain r where "poll_loop env name 0 [StartJob name uri lang] = Some (r, evs)"
      by (auto simp: transcribe_audio_def split: prod.splits)
    from poll_loop_stage_calls[OF this] show ?thesis
      by (simp add: stage_calls_def is_stage_call_def)
  qed
qed

lemma transcript_stage_calls:
  "transcript_stage env src lang s tr = (r, s', tr') \<Longrightarrow>
   stage_calls tr' = stage_calls tr
   \<or> (\<exists>t. stage_calls tr' = stage_calls tr @ [CallCorrect t lang])"
  by (auto simp: transcript_stage_def correction_stage_def Let_def is_stage_call_def
        dest: stage_calls_correct_evs split: option.splits json.splits if_splits prod.splits)

subsection \<open>Fail-fast order of the stages\<close>

lemma validate_junk:
  "validate_wav_file (files junk_state) ''uploads/recorded_audio.wav'' = Inr False"
  by (simp add: validate_wav_file_def junk_state_def idle_state_def wave_read_def)

lemma validate_recorded:
  "validate_wav_file (files recorded_state) ''uploads/recorded_audio.wav'' = Inr True"
  by (simp add: validate_wav_file_def recorded_state_def idle_state_def wave_read_zero)

lemma upload_s3_down:
  "upload_to_s3 s3_down_env (files recorded_state) ''uploads/recorded_audio.wav'' b k =
     (False, [S3Put ''uploads/recorded_audio.wav'' b k])"
  by (simp add: upload_to_s3_def s3_down_env_def recorded_state_def idle_state_def demo_env_def)

lemma process_audio_None:
  assumes "process_audio env p lang s = None"
  shows "validate_wav_file (files s) p = Inr True
         \<and> fst (upload_to_s3 env (files s) p (bucket_name env) (uuid4 env @ ''.wav''))
         \<and> transcribe_audio env (uuid4 env) (s3_uri_of env) lang = None"
proof -
  from assms have v: "validate_wav_file (files s) p = Inr True"
    by (auto simp: process_audio_def split: sum.splits if_splits)
  with assms have pl: "pipeline env p lang s [CallValidate p] = None"
    by (simp add: process_audio_valid)
  have u: "fst (upload_to_s3 env (files s) p (bucket_name env) (uuid4 env @ ''.wav''))"
  proof (rule ccontr)
    assume "\<not> fst (upload_to_s3 env (files s) p (bucket_name env) (uuid4 env @ ''.wav''))"
    from pipeline_upload_fails[OF this] pl show False by simp
  qed
  from pl have "transcribe_audio env (uuid4 env) (s3_uri_of env) lang = None"
    by (simp add: pipeline_upload_ok[OF u] split: option.splits prod.splits)
  with v u show ?thesis by simp
qed

lemma transcribe_audio_stuck: "transcribe_audio stuck_env name uri lang = None"
proof (cases "poll_loop stuck_env name 0 [StartJob name uri lang]")
  case None
  then show ?thesis by (simp add: transcribe_audio_def stuck_env_def demo_env_def)
next
  case (Some y)
  from poll_loop_Some_stops[OF this]
  obtain k where "\<not> non_terminal (get_transcription_job stuck_env name k)" by blast
  then show ?thesis by (simp add: stuck_env_def non_terminal_def demo_job_def)
qed

lemma process_audio_stuck:
  "process_audio stuck_env ''uploads/recorded_audio.wav'' lang recorded_state = None"
proof -
  have "fst (upload_to_s3 stuck_env (files recorded_state) ''uploads/recorded_audio.wav''
               (bucket_name stuck_env) (uuid4 stuck_env @ ''.wav''))"
    by (simp add: upload_to_s3_def stuck_env_def demo_env_def recorded_state_def idle_state_def)
  then show ?thesis
    by (simp add: process_audio_valid validate_recorded pipeline_upload_ok transcribe_audio_stuck)
qed

text \<open>
  C2. In every run of \<open>process_audio\<close> the stages are entered in the order validate,
  upload, transcribe, correct-translate, and the run is fail-fast: when
  \<open>validate_wav_file\<close> returns false the result is an error and the trace holds the
  call of \<open>validate_wav_file\<close> alone, so \<open>upload_to_s3\<close> is not called; when
  \<open>upload_to_s3\<close> returns false the result is an error and the trace holds the calls of
  \<open>validate_wav_file\<close> and \<open>upload_to_s3\<close> and at most the request to S3, so neither
  \<open>transcribe_audio\<close> nor \<open>correct_and_translate\<close> is invoked; and in every run that
  returns, the stage calls in the trace are an initial part of the sequence validate,
  upload, transcribe, correct. A run that does not return has passed validation and
  upload and is held in \<open>transcribe_audio\<close>, whose polling loop does not end.
\<close>

theorem process_audio_fail_fast:
  "(validate_wav_file (files s) p = Inr False \<longrightarrow>
      process_audio env p lang s =
        Some ([(''status'', JStr ''error''), (''message'', JStr ''Invalid WAV file'')],
              s, [CallValidate p]))
   \<and> (validate_wav_file (files s) p = Inr True
        \<and> \<not> fst (upload_to_s3 env (files s) p (bucket_name env) (uuid4 env @ ''.wav'')) \<longrightarrow>
      (\<exists>evs. process_audio env p lang s =
          Some ([(''status'', JStr ''error''), (''message'', JStr ''Failed to upload to S3'')],
                s\<lparr>current_session_id := Some (uuid4 env)\<rparr>,
                CallValidate p # CallUpload p (bucket_name env) (uuid4 env @ ''.wav'') # evs)
        \<and> set evs \<subseteq> {S3Put p (bucket_name env) (uuid4 env @ ''.wav'')}))
   \<and> (\<forall>r s' tr. process_audio env p lang s = Some (r, s', tr) \<longrightarrow>
        (\<exists>t. prefix (stage_calls tr)
               [CallValidate p, CallUpload p (bucket_name env) (uuid4 env @ ''.wav''),
                CallTranscribe (uuid4 env) (s3_uri_of env) lang, CallCorrect t lang]))
   \<and> (process_audio env p lang s = None \<longrightarrow>
        validate_wav_file (files s) p = Inr True
        \<and> fst (upload_to_s3 env (files s) p (bucket_name env) (uuid4 env @ ''.wav''))
        \<and> transcribe_audio env (uuid4 env) (s3_uri_of env) lang = None)"
proof (intro conjI impI allI)
  assume "validate_wav_file (files s) p = Inr False"
  then show "process_audio env p lang s =
        Some ([(''status'', JStr ''error''), (''message'', JStr ''Invalid WAV file'')],
              s, [CallValidate p])"
    by (simp add: process_audio_invalid error_response_def)
next
  assume h: "validate_wav_file (files s) p = Inr True
        \<and> \<not> fst (upload_to_s3 env (files s) p (bucket_name env) (uuid4 env @ ''.wav''))"
  let ?evs = "snd (upload_to_s3 env (files s) p (bucket_name env) (uuid4 env @ ''.wav''))"
  from h have "process_audio env p lang s =
          Some ([(''status'', JStr ''error''), (''message'', JStr ''Failed to upload to S3'')],
                s\<lparr>current_session_id := Some (uuid4 env)\<rparr>,
                CallValidate p # CallUpload p (bucket_name env) (uuid4 env @ ''.wav'') # ?evs)"
    by (simp add: process_audio_valid pipeline_upload_fails error_response_def)
  moreover have "set ?evs \<subseteq> {S3Put p (bucket_name env) (uuid4 env @ ''.wav'')}"
    by (rule upload_events)
  ultimately show "\<exists>evs. process_audio env p lang s =
          Some ([(''status'', JStr ''error''), (''message'', JStr ''Failed to upload to S3'')],
                s\<lparr>current_session_id := Some (uuid4 env)\<rparr>,
                CallValidate p # CallUpload p (bucket_name env) (uuid4 env @ ''.wav'') # evs)
        \<and> set evs \<subseteq> {S3Put p (bucket_name env) (uuid4 env @ ''.wav'')}"
    by blast
next
  fix r s' tr
  assume ret: "process_audio env p lang s = Some (r, s', tr)"
  let ?cu = "CallUpload p (bucket_name env) (uuid4 env @ ''.wav'')"
  let ?ct = "CallTranscribe (uuid4 env) (s3_uri_of env) lang"
  let ?up = "upload_to_s3 env (files s) p (bucket_name env) (uuid4 env @ ''.wav'')"
  have "stage_calls tr = [CallValidate p] \<or> stage_calls tr = [CallValidate p, ?cu]
        \<or> stage_calls tr = [CallValidate p, ?cu, ?ct]
        \<or> (\<exists>t. stage_calls tr = [CallValidate p, ?cu, ?ct, CallCorrect t lang])"
  proof (cases "validate_wav_file (files s) p")
    case (Inl e)
    with ret show ?thesis by (auto simp: process_audio_raises is_stage_call_def)
  next
    case (Inr valid)
    show ?thesis
    proof (cases valid)
      case False
      with Inr ret show ?thesis by (auto simp: process_audio_invalid is_stage_call_def)
    next
      case True
      with Inr ret have pl: "pipeline env p lang s [CallValidate p] = Some (r, s', tr)"
        by (simp add: process_audio_valid)
      show ?thesis
      proof (cases "fst ?up")
        case False
        with pl show ?thesis by (auto simp: pipeline_upload_fails is_stage_call_def)
      next
        case up: True
        with pl obtain src t_evs where
            ta: "transcribe_audio env (uuid4 env) (s3_uri_of env) lang = Some (src, t_evs)"
            and ts: "transcript_stage env src lang (s\<lparr>current_session_id := Some (uuid4 env)\<rparr>)
                  ([CallValidate p] @ [?cu] @ snd ?up @ [?ct] @ t_evs) = (r, s', tr)"
          by (auto simp: pipeline_upload_ok split: option.splits)
        have "stage_calls ([CallValidate p] @ [?cu] @ snd ?up @ [?ct] @ t_evs)
                = [CallValidate p, ?cu, ?ct]"
          using transcribe_audio_stage_calls[OF ta] by (simp add: is_stage_call_def)
        with transcript_stage_calls[OF ts] show ?thesis by auto
      qed
    qed
  qed
  then show "\<exists>t. prefix (stage_calls tr)
               [CallValidate p, ?cu, ?ct, CallCorrect t lang]"
    by (auto simp: prefix_def)
next
  assume "process_audio env p lang s = None"
  from process_audio_None[OF this] show "validate_wav_file (files s) p = Inr True" by simp
next
  assume "process_audio env p lang s = None"
  from process_audio_None[OF this]
  show "fst (upload_to_s3 env (files s) p (bucket_name env) (uuid4 env @ ''.wav''))" by simp
next
  assume "process_audio env p lang s = None"
  from process_audio_None[OF this]
  show "transcribe_audio env (uuid4 env) (s3_uri_of env) lang = None" by simp
qed

theorem process_audio_fail_fast_witness:
  "validate_wav_file (files junk_state) ''uploads/recorded_audio.wav'' = Inr False
   \<and> process_audio demo_env ''uploads/recorded_audio.wav'' ''ta-IN'' junk_state =
        Some ([(''status'', JStr ''error''), (''message'', JStr ''Invalid WAV file'')],
              junk_state, [CallValidate ''uploads/recorded_audio.wav''])
   \<and> validate_wav_file (files recorded_state) ''uploads/recorded_audio.wav'' = Inr True
   \<and> \<not> fst (upload_to_s3 s3_down_env (files recorded_state) ''uploads/recorded_audio.wav''
               (bucket_name s3_down_env) (uuid4 s3_down_env @ ''.wav''))
   \<and> (\<exists>evs. process_audio s3_down_env ''uploads/recorded_audio.wav'' ''ta-IN'' recorded_state =
          Some ([(''status'', JStr ''error''), (''message'', JStr ''Failed to upload to S3'')],
                recorded_state\<lparr>current_session_id := Some (uuid4 s3_down_env)\<rparr>,
                CallValidate ''uploads/recorded_audio.wav''
                  # CallUpload ''uploads/recorded_audio.wav'' (bucket_name s3_down_env)
                      (uuid4 s3_down_env @ ''.wav'') # evs)
        \<and> set evs \<subseteq> {S3Put ''uploads/recorded_audio.wav'' (bucket_name s3_down_env)
                          (uuid4 s3_down_env @ ''.wav'')})
   \<and> (\<exists>t. prefix (stage_calls [CallValidate ''uploads/recorded_audio.wav''])
               [CallValidate ''uploads/recorded_audio.wav'',
                CallUpload ''uploads/recorded_audio.wav'' (bucket_name demo_env)
                  (uuid4 demo_env @ ''.wav''),
                CallTranscribe (uuid4 demo_env) (s3_uri_of demo_env) ''ta-IN'',
                CallCorrect t ''ta-IN''])
   \<and> process_audio stuck_env ''uploads/recorded_audio.wav'' ''ta-IN'' recorded_state = None
   \<and> transcribe_audio stuck_env (uuid4 stuck_env) (s3_uri_of stuck_env) ''ta-IN'' = None"
proof -
  note junk = validate_junk
  have up: "validate_wav_file (files recorded_state) ''uploads/recorded_audio.wav'' = Inr True
        \<and> \<not> fst (upload_to_s3 s3_down_env (files recorded_state) ''uploads/recorded_audio.wav''
               (bucket_name s3_down_env) (uuid4 s3_down_env @ ''.wav''))"
    by (simp add: validate_recorded upload_s3_down)
  note a = process_audio_fail_fast[THEN conjunct1, rule_format, OF junk,
             of demo_env "''ta-IN''"]
  note b = process_audio_fail_fast[THEN conjunct2, THEN conjunct1, rule_format, OF up,
             of "''ta-IN''"]
  note c = process_audio_fail_fast[THEN conjunct2, THEN conjunct2, THEN conjunct1,
             rule_format, OF a]
  note n = process_audio_stuck[of "''ta-IN''"]
  from process_audio_fail_fast[THEN conjunct2, THEN conjunct2, THEN conjunct2, rule_format, OF n]
  have d: "transcribe_audio stuck_env (uuid4 stuck_env) (s3_uri_of stuck_env) ''ta-IN'' = None"
    by simp
  from up have u1: "validate_wav_file (files recorded_state) ''uploads/recorded_audio.wav'' = Inr True"
    and u2: "\<not> fst (upload_to_s3 s3_down_env (files recorded_state) ''uploads/recorded_audio.wav''
               (bucket_name s3_down_env) (uuid4 s3_down_env @ ''.wav''))"
    by simp_all
  show ?thesis by (intro conjI) (rule junk a u1 u2 b c n d)+
qed

subsection \<open>Empty and blank transcripts\<close>

lemma py_getitem_Inr:
  "py_getitem c key = Inr v \<Longrightarrow> \<exists>kvs. c = JObj kvs \<and> map_of kvs key = Some v"
  by (cases c) (auto split: option.splits)

lemma py_contains_of_getitem:
  "py_getitem c key = Inr v \<Longrightarrow> py_contains key c = Inr True"
proof -
  assume "py_getitem c key = Inr v"
  then obtain kvs where c: "c = JObj kvs" and m: "map_of kvs key = Some v"
    using py_getitem_Inr by blast
  from m have "key \<in> fst ` set kvs" by (metis domI dom_map_of_conv_image_fst)
  with c show ?thesis by simp
qed

lemma extract_first_transcript:
  assumes "first_transcript data = Inr text"
  shows "extract_transcript data = Inr (if truthy text then Some text else None)"
proof -
  from assms obtain results where r: "py_getitem data ''results'' = Inr results"
    by (cases "py_getitem data ''results''") (auto simp: first_transcript_def bind_exn_def)
  with assms obtain transcripts where t: "py_getitem results ''transcripts'' = Inr transcripts"
    by (cases "py_getitem results ''transcripts''") (auto simp: first_transcript_def bind_exn_def)
  with assms r obtain first where f: "py_getitem0 transcripts = Inr first"
    by (cases "py_getitem0 transcripts") (auto simp: first_transcript_def bind_exn_def)
  with assms r t have x: "py_getitem first ''transcript'' = Inr text"
    by (simp add: first_transcript_def bind_exn_def)
  have tr: "truthy transcripts"
  proof (cases transcripts)
    case (JArr xs)
    with f show ?thesis by (cases xs) auto
  next
    case (JStr cs)
    with f x show ?thesis by (cases cs) auto
  qed (use f in auto)
  show ?thesis
    using r t f x tr py_contains_of_getitem[OF r] py_contains_of_getitem[OF t]
    by (simp add: extract_transcript_def bind_exn_def)
qed

lemma transcript_stage_blank:
  "src = None \<or> (\<exists>t. src = Some (JStr t) \<and> strip t = []) \<Longrightarrow>
   transcript_stage env src lang s tr = (error_response ''Transcription failed'', s, tr)"
  by (auto simp: transcript_stage_def)

lemma transcribe_audio_completed:
  assumes "start_transcription_job env name uri lang = None"
      and "\<forall>i<k. non_terminal (get_transcription_job env name i)"
      and "get_transcription_job env name k = Inr j"
      and "TranscriptionJobStatus j = ''COMPLETED''"
      and "TranscriptFileUri j = Some turi"
      and "urlopen_json env turi = Inr data"
      and "first_transcript data = Inr text"
  shows "transcribe_audio env name uri lang =
           Some (if truthy text then Some text else None,
                 StartJob name uri lang # sleep_and_poll 0 k @ [Poll k, FetchTranscript turi])"
proof -
  have nt: "\<not> non_terminal (get_transcription_job env name k)"
    using assms(3,4) by (simp add: non_terminal_def)
  have "poll_loop env name 0 [StartJob name uri lang] =
     Some (fst (last_poll env k (get_transcription_job env name k)),
           [StartJob name uri lang] @ sleep_and_poll 0 k
             @ snd (last_poll env k (get_transcription_job env name k)))"
    using assms(2) nt by (intro poll_loop_reaches) auto
  moreover have "last_poll env k (get_transcription_job env name k) =
      (Inr (if truthy text then Some text else None), [Poll k, FetchTranscript turi])"
    using assms(3-6) extract_first_transcript[OF assms(7)]
    by (simp add: last_poll_def on_completed_def bind_exn_def)
  ultimately show ?thesis
    using assms(1) by (simp add: transcribe_audio_started)
qed


lemma stop_recording_written:
  assumes "write_recorded_audio (concat (audio_frames s)) = (None, content)"
  shows "stop_recording env form_language s =
           process_audio env ''uploads/recorded_audio.wav''
             (case form_language of None \<Rightarrow> ''te-IN'' | Some l \<Rightarrow> l)
             (s\<lparr>is_recording := False,
                files := (files s)(''uploads/recorded_audio.wav'' \<mapsto> content)\<rparr>)"
  using assms by (simp add: stop_recording_def Let_def)

lemma silence_first_transcript: "first_transcript (transcript_payload t) = Inr (JStr t)"
  by (simp add: first_transcript_def transcript_payload_def bind_exn_def)

lemma validate_zero_frame:
  "validate_wav_file (fs(p \<mapsto> zero_frame_wav)) p = Inr True"
  by (simp add: validate_wav_file_def wave_read_zero)

text \<open>
  C6. Take a \<open>/stop-recording\<close> request whose recording is written and validated, whose
  upload succeeds and whose transcription job starts and is answered with \<open>COMPLETED\<close>
  at status request \<open>k\<close>, after \<open>k\<close> non-terminal answers. If the first transcript of the
  fetched payload, \<open>data["results"]["transcripts"][0]["transcript"]\<close>, is a string \<open>t\<close>
  that is empty or holds white space only, then \<open>transcribe_audio\<close> returns \<open>None\<close> when
  \<open>t\<close> is empty (and \<open>t\<close> itself otherwise), and the response to the request is exactly
  \<open>{"status": "error", "message": "Transcription failed"}\<close>.
\<close>

theorem empty_transcript_is_transcription_failure:
  assumes "write_recorded_audio (concat (audio_frames s)) = (None, content)"
      and "validate_wav_file ((files s)(''uploads/recorded_audio.wav'' \<mapsto> content))
             ''uploads/recorded_audio.wav'' = Inr True"
      and "fst (upload_to_s3 env ((files s)(''uploads/recorded_audio.wav'' \<mapsto> content))
                  ''uploads/recorded_audio.wav'' (bucket_name env) (uuid4 env @ ''.wav''))"
      and "lang = (case form_language of None \<Rightarrow> ''te-IN'' | Some l \<Rightarrow> l)"
      and "start_transcription_job env (uuid4 env) (s3_uri_of env) lang = None"
      and "\<forall>i<k. non_terminal (get_transcription_job env (uuid4 env) i)"
      and "get_transcription_job env (uuid4 env) k = Inr j"
      and "TranscriptionJobStatus j = ''COMPLETED''"
      and "TranscriptFileUri j = Some turi"
      and "urlopen_json env turi = Inr data"
      and "first_transcript data = Inr (JStr t)"
      and "strip t = []"
  shows "map_option fst (transcribe_audio env (uuid4 env) (s3_uri_of env) lang) =
           Some (if t = [] then None else Some (JStr t))
         \<and> map_option fst (stop_recording env form_language s) =
             Some [(''status'', JStr ''error''), (''message'', JStr ''Transcription failed'')]"
proof -
  let ?p = "''uploads/recorded_audio.wav''"
  let ?s1 = "s\<lparr>is_recording := False, files := (files s)(?p \<mapsto> content)\<rparr>"
  let ?src = "if t = [] then None else Some (JStr t)"
  let ?evs = "StartJob (uuid4 env) (s3_uri_of env) lang # sleep_and_poll 0 k
                @ [Poll k, FetchTranscript turi]"
  have ta: "transcribe_audio env (uuid4 env) (s3_uri_of env) lang = Some (?src, ?evs)"
    using transcribe_audio_completed[OF assms(5-11)] by simp
  have blank: "?src = None \<or> (\<exists>t'. ?src = Some (JStr t') \<and> strip t' = [])"
    using assms(12) by simp
  have "stop_recording env form_language s = process_audio env ?p lang ?s1"
    using stop_recording_written[OF assms(1)] assms(4) by simp
  also have "\<dots> = pipeline env ?p lang ?s1 [CallValidate ?p]"
    using assms(2) by (intro process_audio_valid) simp
  also have "\<dots> = Some (transcript_stage env ?src lang (?s1\<lparr>current_session_id := Some (uuid4 env)\<rparr>)
                  ([CallValidate ?p] @ [CallUpload ?p (bucket_name env) (uuid4 env @ ''.wav'')]
                      @ snd (upload_to_s3 env (files ?s1) ?p (bucket_name env) (uuid4 env @ ''.wav''))
                      @ [CallTranscribe (uuid4 env) (s3_uri_of env) lang] @ ?evs))"
    using assms(3) ta by (subst pipeline_upload_ok) simp_all
  finally have "map_option fst (stop_recording env form_language s) =
      Some (error_response ''Transcription failed'')"
    by (simp add: transcript_stage_blank[OF blank])
  with ta show ?thesis by (simp add: error_response_def)
qed

theorem empty_transcript_is_transcription_failure_witness:
  "first_transcript (transcript_payload []) = Inr (JStr [])
   \<and> map_option fst (transcribe_audio (silence_env []) (uuid4 (silence_env []))
                       (s3_uri_of (silence_env [])) ''ta-IN'') = Some None
   \<and> map_option fst (stop_recording (silence_env []) (Some ''ta-IN'') idle_state) =
       Some [(''status'', JStr ''error''), (''message'', JStr ''Transcription failed'')]
   \<and> strip '' \<newline> '' = []
   \<and> map_option fst (transcribe_audio (silence_env '' \<newline> '') (uuid4 (silence_env '' \<newline> ''))
                       (s3_uri_of (silence_env '' \<newline> '')) ''te-IN'') = Some (Some (JStr '' \<newline> ''))
   \<and> map_option fst (stop_recording (silence_env '' \<newline> '') None idle_state) =
       Some [(''status'', JStr ''error''), (''message'', JStr ''Transcription failed'')]"
proof -
  have w: "write_recorded_audio (concat (audio_frames idle_state)) = (None, zero_frame_wav)"
    by (simp add: idle_state_def write_zero_frames)
  note v = validate_zero_frame[of "files idle_state" "''uploads/recorded_audio.wav''"]
  have u: "fst (upload_to_s3 (silence_env t)
                  ((files idle_state)(''uploads/recorded_audio.wav'' \<mapsto> zero_frame_wav))
                  ''uploads/recorded_audio.wav'' (bucket_name (silence_env t))
                  (uuid4 (silence_env t) @ ''.wav''))" for t
    by (simp add: upload_to_s3_def silence_env_def demo_env_def)
  have st: "start_transcription_job (silence_env t) (uuid4 (silence_env t))
              (s3_uri_of (silence_env t)) l = None" for t l
    by (simp add: silence_env_def demo_env_def)
  have nt: "\<forall>i<2. non_terminal (get_transcription_job (silence_env t) (uuid4 (silence_env t)) i)" for t
    by (simp add: silence_env_def demo_env_def demo_job_def non_terminal_def)
  have g: "get_transcription_job (silence_env t) (uuid4 (silence_env t)) 2 = Inr (demo_job ''COMPLETED'')" for t
    by (simp add: silence_env_def demo_env_def)
  have c: "TranscriptionJobStatus (demo_job ''COMPLETED'') = ''COMPLETED''"
    by (simp add: demo_job_def)
  have f: "TranscriptFileUri (demo_job ''COMPLETED'') = Some ''https://s3/transcript.json''"
    by (simp add: demo_job_def)
  have d: "urlopen_json (silence_env t) ''https://s3/transcript.json'' = Inr (transcript_payload t)" for t
    by (simp add: silence_env_def)
  note ft = silence_first_transcript
  have e: "strip [] = []" by (simp add: strip_def)
  have b: "strip '' \<newline> '' = []" by (simp add: strip_def is_space_def)
  have l1: "''ta-IN'' = (case Some ''ta-IN'' of None \<Rightarrow> ''te-IN'' | Some l \<Rightarrow> l)" by simp
  have l2: "''te-IN'' = (case None of None \<Rightarrow> ''te-IN'' | Some (l::string) \<Rightarrow> l)" by simp
  note a1 = empty_transcript_is_transcription_failure[OF w v u l1 st nt g c f d ft e]
  note a2 = empty_transcript_is_transcription_failure[OF w v u l2 st nt g c f d ft b]
  from a1 have a11: "map_option fst (transcribe_audio (silence_env []) (uuid4 (silence_env []))
                       (s3_uri_of (silence_env [])) ''ta-IN'') = Some None"
    and a12: "map_option fst (stop_recording (silence_env []) (Some ''ta-IN'') idle_state) =
       Some [(''status'', JStr ''error''), (''message'', JStr ''Transcription failed'')]"
    by simp_all
  from a2 have a21: "map_option fst (transcribe_audio (silence_env '' \<newline> '') (uuid4 (silence_env '' \<newline> ''))
                       (s3_uri_of (silence_env '' \<newline> '')) ''te-IN'') = Some (Some (JStr '' \<newline> ''))"
    and a22: "map_option fst (stop_recording (silence_env '' \<newline> '') None idle_state) =
       Some [(''status'', JStr ''error''), (''message'', JStr ''Transcription failed'')]"
    by simp_all
  show ?thesis by (intro conjI) (rule ft a11 a12 b a21 a22)+
qed

subsection \<open>What a run of the pipeline returns\<close>

lemma correction_stage_result:
  assumes "correction_stage env t lang s tr = (r, s', tr')"
  shows "prefix (tr @ [CallCorrect t lang]) tr'
         \<and> (if fst (correct_and_translate env t lang) = []
             then r = error_response ''Translation to English failed'' \<and> s' = s
             else r = [(''status'', JStr ''success''), (''source_text'', JStr t),
                       (''english_text'', JStr (fst (correct_and_translate env t lang)))]
                  \<and> s' = s\<lparr>current_english_text := Some (fst (correct_and_translate env t lang))\<rparr>)"
  using assms
  by (cases "correct_and_translate env t lang")
     (auto simp: correction_stage_def Let_def split: if_splits)

lemma transcript_stage_usable:
  "strip t \<noteq> [] \<Longrightarrow>
   transcript_stage env (Some (JStr t)) lang s tr = correction_stage env t lang s tr"
  by (auto simp: transcript_stage_def strip_def)

lemma transcript_stage_result:
  assumes "transcript_stage env src lang s tr = (r, s', tr')"
  shows "prefix tr tr'
         \<and> ((status r = Some (JStr ''error'') \<and> s' = s)
            \<or> (\<exists>t. src = Some (JStr t) \<and> strip t \<noteq> []
                  \<and> fst (correct_and_translate env t lang) \<noteq> []
                  \<and> r = [(''status'', JStr ''success''), (''source_text'', JStr t),
                          (''english_text'', JStr (fst (correct_and_translate env t lang)))]
                  \<and> s' = s\<lparr>current_english_text := Some (fst (correct_and_translate env t lang))\<rparr>))"
proof (cases "\<exists>t. src = Some (JStr t) \<and> strip t \<noteq> []")
  case True
  then obtain t where t: "src = Some (JStr t)" "strip t \<noteq> []" by blast
  with assms have c: "correction_stage env t lang s tr = (r, s', tr')"
    by (simp add: transcript_stage_usable)
  from correction_stage_result[OF c] have p: "prefix (tr @ [CallCorrect t lang]) tr'"
    and r: "if fst (correct_and_translate env t lang) = []
             then r = error_response ''Translation to English failed'' \<and> s' = s
             else r = [(''status'', JStr ''success''), (''source_text'', JStr t),
                       (''english_text'', JStr (fst (correct_and_translate env t lang)))]
                  \<and> s' = s\<lparr>current_english_text := Some (fst (correct_and_translate env t lang))\<rparr>"
    by simp_all
  from p have "prefix tr tr'" by (meson append_prefixD)
  with r t show ?thesis by (cases "fst (correct_and_translate env t lang) = []") auto
next
  case False
  with assms have "status r = Some (JStr ''error'') \<and> s' = s \<and> tr' = tr"
    by (auto simp: transcript_stage_def split: option.splits json.splits if_splits)
  then show ?thesis by simp
qed

lemma pipeline_result:
  assumes "pipeline env p lang s tr = Some (r, s', tr')"
  shows "prefix (tr @ [CallUpload p (bucket_name env) (uuid4 env @ ''.wav'')]) tr'
         \<and> ((status r = Some (JStr ''error'') \<and> s' = s\<lparr>current_session_id := Some (uuid4 env)\<rparr>)
            \<or> (\<exists>t evs. transcribe_audio env (uuid4 env) (s3_uri_of env) lang = Some (Some (JStr t), evs)
                  \<and> strip t \<noteq> []
                  \<and> fst (correct_and_translate env t lang) \<noteq> []
                  \<and> r = [(''status'', JStr ''success''), (''source_text'', JStr t),
                          (''english_text'', JStr (fst (correct_and_translate env t lang)))]
                  \<and> s' = s\<lparr>current_session_id := Some (uuid4 env),
                            current_english_text := Some (fst (correct_and_translate env t lang))\<rparr>))"
proof (cases "fst (upload_to_s3 env (files s) p (bucket_name env) (uuid4 env @ ''.wav''))")
  case False
  with assms show ?thesis by (auto simp: pipeline_upload_fails)
next
  case True
  let ?cu = "CallUpload p (bucket_name env) (uuid4 env @ ''.wav'')"
  let ?up = "upload_to_s3 env (files s) p (bucket_name env) (uuid4 env @ ''.wav'')"
  let ?tr1 = "tr @ [?cu] @ snd ?up @ [CallTranscribe (uuid4 env) (s3_uri_of env) lang]"
  from True assms obtain src t_evs where
      ta: "transcribe_audio env (uuid4 env) (s3_uri_of env) lang = Some (src, t_evs)"
      and ts: "transcript_stage env src lang (s\<lparr>current_session_id := Some (uuid4 env)\<rparr>)
                  (?tr1 @ t_evs) = (r, s', tr')"
    by (auto simp: pipeline_upload_ok split: option.splits)
  from transcript_stage_result[OF ts] have p: "prefix (?tr1 @ t_evs) tr'"
    and c: "(status r = Some (JStr ''error'') \<and> s' = s\<lparr>current_session_id := Some (uuid4 env)\<rparr>)
            \<or> (\<exists>t. src = Some (JStr t) \<and> strip t \<noteq> []
                  \<and> fst (correct_and_translate env t lang) \<noteq> []
                  \<and> r = [(''status'', JStr ''success''), (''source_text'', JStr t),
                          (''english_text'', JStr (fst (correct_and_translate env t lang)))]
                  \<and> s' = s\<lparr>current_session_id := Some (uuid4 env),
                            current_english_text := Some (fst (correct_and_translate env t lang))\<rparr>)"
    by simp_all
  have "prefix (tr @ [?cu]) (?tr1 @ t_evs)" by simp
  from prefix_order.trans[OF this p] have "prefix (tr @ [?cu]) tr'" .
  with c ta show ?thesis by auto
qed

lemma transcribe_audio_scripted:
  assumes "start_transcription_job env = start_transcription_job demo_env"
      and "get_transcription_job env = get_transcription_job demo_env"
      and "urlopen_json env = (\<lambda>uri. Inr (transcript_payload t))"
  shows "transcribe_audio env name uri lang =
           Some (if t = [] then None else Some (JStr t),
                 [StartJob name uri lang, Poll 0, Sleep 5, Poll 1, Sleep 5, Poll 2,
                  FetchTranscript ''https://s3/transcript.json''])"
proof -
  have sp: "sleep_and_poll 0 2 = [Poll 0, Sleep 5, Poll 1, Sleep 5]"
    by (simp add: sleep_and_poll_def upt_rec numeral_2_eq_2)
  have "transcribe_audio env name uri lang =
           Some (if truthy (JStr t) then Some (JStr t) else None,
                 StartJob name uri lang # sleep_and_poll 0 2
                   @ [Poll 2, FetchTranscript ''https://s3/transcript.json''])"
  proof (rule transcribe_audio_completed)
    show "start_transcription_job env name uri lang = None"
      by (simp add: assms(1) demo_env_def)
    show "\<forall>i<2. non_terminal (get_transcription_job env name i)"
      by (simp add: assms(2) demo_env_def demo_job_def non_terminal_def)
    show "get_transcription_job env name 2 = Inr (demo_job ''COMPLETED'')"
      by (simp add: assms(2) demo_env_def)
    show "TranscriptionJobStatus (demo_job ''COMPLETED'') = ''COMPLETED''"
      by (simp add: demo_job_def)
    show "TranscriptFileUri (demo_job ''COMPLETED'') = Some ''https://s3/transcript.json''"
      by (simp add: demo_job_def)
    show "urlopen_json env ''https://s3/transcript.json'' = Inr (transcript_payload t)"
      by (simp add: assms(3))
    show "first_transcript (transcript_payload t) = Inr (JStr t)"
      by (rule silence_first_transcript)
  qed
  then show ?thesis by (simp add: sp)
qed

lemma upload_scripted:
  assumes "s3_upload_fileobj env = s3_upload_fileobj demo_env"
  shows "upload_to_s3 env (fs(p \<mapsto> c)) p b k = (True, [S3Put p b k])"
  by (simp add: upload_to_s3_def assms demo_env_def)

lemma correct_and_translate_demo:
  "correct_and_translate demo_env t lang =
     (''Hello'', [ReadOntology, Generate (build_prompt ''@prefix : <urn:polyhouse#> .'' lang t)])"
  by (simp add: correct_and_translate_def demo_env_def Let_def strip_def is_space_def)

lemma stop_recording_scripted:
  assumes "audio_frames s = []"
      and "s3_upload_fileobj env = s3_upload_fileobj demo_env"
      and "start_transcription_job env = start_transcription_job demo_env"
      and "get_transcription_job env = get_transcription_job demo_env"
      and "urlopen_json env = (\<lambda>uri. Inr (transcript_payload t))"
      and "lang = (case form_language of None \<Rightarrow> ''te-IN'' | Some l \<Rightarrow> l)"
  shows "stop_recording env form_language s =
           Some (transcript_stage env (if t = [] then None else Some (JStr t)) lang
                   (s\<lparr>is_recording := False,
                      files := (files s)(''uploads/recorded_audio.wav'' \<mapsto> zero_frame_wav),
                      current_session_id := Some (uuid4 env)\<rparr>)
                   [CallValidate ''uploads/recorded_audio.wav'',
                    CallUpload ''uploads/recorded_audio.wav'' (bucket_name env) (uuid4 env @ ''.wav''),
                    S3Put ''uploads/recorded_audio.wav'' (bucket_name env) (uuid4 env @ ''.wav''),
                    CallTranscribe (uuid4 env) (s3_uri_of env) lang,
                    StartJob (uuid4 env) (s3_uri_of env) lang,
                    Poll 0, Sleep 5, Poll 1, Sleep 5, Poll 2,
                    FetchTranscript ''https://s3/transcript.json''])"
proof -
  let ?p = "''uploads/recorded_audio.wav''"
  let ?s1 = "s\<lparr>is_recording := False, files := (files s)(?p \<mapsto> zero_frame_wav)\<rparr>"
  have w: "write_recorded_audio (concat (audio_frames s)) = (None, zero_frame_wav)"
    by (simp add: assms(1) write_zero_frames)
  have "stop_recording env form_language s = process_audio env ?p lang ?s1"
    using stop_recording_written[OF w] assms(6) by simp
  also have "\<dots> = pipeline env ?p lang ?s1 [CallValidate ?p]"
    by (intro process_audio_valid) (simp add: validate_zero_frame)
  finally show ?thesis
    by (simp add: pipeline_upload_ok upload_scripted[OF assms(2)]
          transcribe_audio_scripted[OF assms(3-5)])
qed

text \<open>
  C10. When the frame buffer is empty, \<open>/stop-recording\<close> writes the 44-byte file
  \<open>zero_frame_wav\<close>, a WAV header with a data chunk of length 0, to
  \<open>uploads/recorded_audio.wav\<close>, whatever was stored there before; the reader finds one
  channel, 44100 frames per second, two bytes per sample and 0 frames in it, and
  \<open>validate_wav_file\<close> returns \<open>True\<close>. Nothing tests for an empty recording: the
  request goes on exactly as the steps after validation do for any valid file (session
  id, upload, transcription, correction), so in every run that returns the file on disk
  is the zero-frame file and the trace starts with the calls of \<open>validate_wav_file\<close>
  and \<open>upload_to_s3\<close>.
\<close>

theorem empty_recording_enters_pipeline:
  assumes "audio_frames s = []"
  shows "write_recorded_audio (concat (audio_frames s)) = (None, zero_frame_wav)
         \<and> wave_read zero_frame_wav = Inr (\<lparr>nchannels = 1, framerate = 44100, sampwidth = 2\<rparr>, 0)
         \<and> validate_wav_file ((files s)(''uploads/recorded_audio.wav'' \<mapsto> zero_frame_wav))
              ''uploads/recorded_audio.wav'' = Inr True
         \<and> stop_recording env form_language s =
             pipeline env ''uploads/recorded_audio.wav''
               (case form_language of None \<Rightarrow> ''te-IN'' | Some l \<Rightarrow> l)
               (s\<lparr>is_recording := False,
                  files := (files s)(''uploads/recorded_audio.wav'' \<mapsto> zero_frame_wav)\<rparr>)
               [CallValidate ''uploads/recorded_audio.wav'']
         \<and> (\<forall>r s' tr. stop_recording env form_language s = Some (r, s', tr) \<longrightarrow>
               files s' = (files s)(''uploads/recorded_audio.wav'' \<mapsto> zero_frame_wav)
               \<and> prefix [CallValidate ''uploads/recorded_audio.wav'',
                         CallUpload ''uploads/recorded_audio.wav'' (bucket_name env)
                           (uuid4 env @ ''.wav'')] tr)"
proof -
  let ?p = "''uploads/recorded_audio.wav''"
  let ?lang = "case form_language of None \<Rightarrow> ''te-IN'' | Some l \<Rightarrow> l"
  let ?s1 = "s\<lparr>is_recording := False, files := (files s)(?p \<mapsto> zero_frame_wav)\<rparr>"
  have w: "write_recorded_audio (concat (audio_frames s)) = (None, zero_frame_wav)"
    by (simp add: assms write_zero_frames)
  have v: "validate_wav_file ((files s)(?p \<mapsto> zero_frame_wav)) ?p = Inr True"
    by (rule validate_zero_frame)
  have "stop_recording env form_language s = process_audio env ?p ?lang ?s1"
    by (rule stop_recording_written[OF w])
  also have "\<dots> = pipeline env ?p ?lang ?s1 [CallValidate ?p]"
    by (intro process_audio_valid) (simp add: v)
  finally have eq: "stop_recording env form_language s = pipeline env ?p ?lang ?s1 [CallValidate ?p]" .
  have ret: "files s' = (files s)(?p \<mapsto> zero_frame_wav)
               \<and> prefix [CallValidate ?p, CallUpload ?p (bucket_name env) (uuid4 env @ ''.wav'')] tr"
    if "stop_recording env form_language s = Some (r, s', tr)" for r s' tr
  proof -
    from that eq have "pipeline env ?p ?lang ?s1 [CallValidate ?p] = Some (r, s', tr)" by simp
    from pipeline_result[OF this] show ?thesis by auto
  qed
  from w wave_read_zero v eq ret show ?thesis by blast
qed

theorem empty_recording_enters_pipeline_witness:
  "audio_frames idle_state = []
   \<and> stop_recording demo_env (Some ''ta-IN'') idle_state =
       Some ([(''status'', JStr ''success''), (''source_text'', JStr ''vanakkam''),
              (''english_text'', JStr ''Hello'')],
             idle_state\<lparr>files := [''uploads/recorded_audio.wav'' \<mapsto> zero_frame_wav],
                        current_session_id := Some ''0f8fad5b-d9cb-469f-a165-70867728950e'',
                        current_english_text := Some ''Hello''\<rparr>,
             [CallValidate ''uploads/recorded_audio.wav'',
              CallUpload ''uploads/recorded_audio.wav'' (Some ''bucket'')
                ''0f8fad5b-d9cb-469f-a165-70867728950e.wav'',
              S3Put ''uploads/recorded_audio.wav'' (Some ''bucket'')
                ''0f8fad5b-d9cb-469f-a165-70867728950e.wav'',
              CallTranscribe ''0f8fad5b-d9cb-469f-a165-70867728950e''
                ''s3://bucket/0f8fad5b-d9cb-469f-a165-70867728950e.wav'' ''ta-IN'',
              StartJob ''0f8fad5b-d9cb-469f-a165-70867728950e''
                ''s3://bucket/0f8fad5b-d9cb-469f-a165-70867728950e.wav'' ''ta-IN'',
              Poll 0, Sleep 5, Poll 1, Sleep 5, Poll 2,
              FetchTranscript ''https://s3/transcript.json'',
              CallCorrect ''vanakkam'' ''ta-IN'', ReadOntology,
              Generate (build_prompt ''@prefix : <urn:polyhouse#> .'' ''ta-IN'' ''vanakkam'')])
   \<and> files (idle_state\<lparr>files := [''uploads/recorded_audio.wav'' \<mapsto> zero_frame_wav],
                        current_session_id := Some ''0f8fad5b-d9cb-469f-a165-70867728950e'',
                        current_english_text := Some ''Hello''\<rparr>)
       = (files idle_state)(''uploads/recorded_audio.wav'' \<mapsto> zero_frame_wav)"
proof -
  have a: "audio_frames idle_state = []" by (simp add: idle_state_def)
  have run: "stop_recording demo_env (Some ''ta-IN'') idle_state =
       Some ([(''status'', JStr ''success''), (''source_text'', JStr ''vanakkam''),
              (''english_text'', JStr ''Hello'')],
             idle_state\<lparr>files := [''uploads/recorded_audio.wav'' \<mapsto> zero_frame_wav],
                        current_session_id := Some ''0f8fad5b-d9cb-469f-a165-70867728950e'',
                        current_english_text := Some ''Hello''\<rparr>,
             [CallValidate ''uploads/recorded_audio.wav'',
              CallUpload ''uploads/recorded_audio.wav'' (Some ''bucket'')
                ''0f8fad5b-d9cb-469f-a165-70867728950e.wav'',
              S3Put ''uploads/recorded_audio.wav'' (Some ''bucket'')
                ''0f8fad5b-d9cb-469f-a165-70867728950e.wav'',
              CallTranscribe ''0f8fad5b-d9cb-469f-a165-70867728950e''
                ''s3://bucket/0f8fad5b-d9cb-469f-a165-70867728950e.wav'' ''ta-IN'',
              StartJob ''0f8fad5b-d9cb-469f-a165-70867728950e''
                ''s3://bucket/0f8fad5b-d9cb-469f-a165-70867728950e.wav'' ''ta-IN'',
              Poll 0, Sleep 5, Poll 1, Sleep 5, Poll 2,
              FetchTranscript ''https://s3/transcript.json'',
              CallCorrect ''vanakkam'' ''ta-IN'', ReadOntology,
              Generate (build_prompt ''@prefix : <urn:polyhouse#> .'' ''ta-IN'' ''vanakkam'')])"
    by (subst stop_recording_scripted[where t = "''vanakkam''" and lang = "''ta-IN''"])
       (simp_all add: a demo_env_def transcript_stage_def strip_def is_space_def
          correction_stage_def correct_and_translate_demo[unfolded demo_env_def]
          s3_uri_of_def py_str_def idle_state_def)
  from empty_recording_enters_pipeline[OF a, of demo_env "Some ''ta-IN''"]
  have "\<forall>r s' tr. stop_recording demo_env (Some ''ta-IN'') idle_state = Some (r, s', tr) \<longrightarrow>
               files s' = (files idle_state)(''uploads/recorded_audio.wav'' \<mapsto> zero_frame_wav)
               \<and> prefix [CallValidate ''uploads/recorded_audio.wav'',
                         CallUpload ''uploads/recorded_audio.wav'' (bucket_name demo_env)
                           (uuid4 demo_env @ ''.wav'')] tr"
    by (elim conjE)
  from this[rule_format, OF run]
  have f: "files (idle_state\<lparr>files := [''uploads/recorded_audio.wav'' \<mapsto> zero_frame_wav],
                        current_session_id := Some ''0f8fad5b-d9cb-469f-a165-70867728950e'',
                        current_english_text := Some ''Hello''\<rparr>)
       = (files idle_state)(''uploads/recorded_audio.wav'' \<mapsto> zero_frame_wav)"
    by (elim conjE)
  show ?thesis by (intro conjI) (rule a run f)+
qed

subsection \<open>The session state after a failed run\<close>

lemma upload_recorded:
  assumes "s3_upload_fileobj env = s3_upload_fileobj demo_env"
  shows "fst (upload_to_s3 env (files recorded_state) ''uploads/recorded_audio.wav'' b k)"
  by (simp add: upload_to_s3_def assms demo_env_def recorded_state_def idle_state_def)

text \<open>
  C5, as the claim states it, fails: the upload to S3 fails, \<open>process_audio\<close> returns an
  error, and \<open>current_session_id\<close>, unset before, holds the id of the failed run.
\<close>

theorem failed_upload_leaves_session_id:
  "current_session_id recorded_state = None
   \<and> fst (upload_to_s3 s3_down_env (files recorded_state) ''uploads/recorded_audio.wav''
             (bucket_name s3_down_env) (uuid4 s3_down_env @ ''.wav'')) = False
   \<and> process_audio s3_down_env ''uploads/recorded_audio.wav'' ''ta-IN'' recorded_state =
       Some ([(''status'', JStr ''error''), (''message'', JStr ''Failed to upload to S3'')],
             recorded_state\<lparr>current_session_id := Some ''0f8fad5b-d9cb-469f-a165-70867728950e''\<rparr>,
             [CallValidate ''uploads/recorded_audio.wav'',
              CallUpload ''uploads/recorded_audio.wav'' (Some ''bucket'')
                ''0f8fad5b-d9cb-469f-a165-70867728950e.wav'',
              S3Put ''uploads/recorded_audio.wav'' (Some ''bucket'')
                ''0f8fad5b-d9cb-469f-a165-70867728950e.wav''])
   \<and> current_session_id
         (recorded_state\<lparr>current_session_id := Some ''0f8fad5b-d9cb-469f-a165-70867728950e''\<rparr>)
       = Some ''0f8fad5b-d9cb-469f-a165-70867728950e''"
  by (simp add: process_audio_valid validate_recorded pipeline_upload_fails upload_s3_down
        error_response_def)
     (simp add: recorded_state_def idle_state_def s3_down_env_def demo_env_def)

text \<open>
  C5, amended. For a valid file: when \<open>upload_to_s3\<close> returns false, when
  \<open>transcribe_audio\<close> returns \<open>None\<close> or a string of white space, and when
  \<open>correct_and_translate\<close> returns the empty string, \<open>process_audio\<close> returns the error
  response of that stage, and the state it leaves differs from the one it found in
  \<open>current_session_id\<close> only, which holds the id generated for the failed run (line
  290): \<open>current_english_text\<close> is as before.
\<close>

theorem failed_run_keeps_english_text:
  "(validate_wav_file (files s) p = Inr True
      \<and> \<not> fst (upload_to_s3 env (files s) p (bucket_name env) (uuid4 env @ ''.wav'')) \<longrightarrow>
    map_option (\<lambda>(r, s', tr). (r, s')) (process_audio env p lang s) =
      Some ([(''status'', JStr ''error''), (''message'', JStr ''Failed to upload to S3'')],
            s\<lparr>current_session_id := Some (uuid4 env)\<rparr>))
   \<and> (validate_wav_file (files s) p = Inr True
      \<and> fst (upload_to_s3 env (files s) p (bucket_name env) (uuid4 env @ ''.wav''))
      \<and> transcribe_audio env (uuid4 env) (s3_uri_of env) lang = Some (src, evs)
      \<and> (src = None \<or> (\<exists>t. src = Some (JStr t) \<and> strip t = [])) \<longrightarrow>
    map_option (\<lambda>(r, s', tr). (r, s')) (process_audio env p lang s) =
      Some ([(''status'', JStr ''error''), (''message'', JStr ''Transcription failed'')],
            s\<lparr>current_session_id := Some (uuid4 env)\<rparr>))
   \<and> (validate_wav_file (files s) p = Inr True
      \<and> fst (upload_to_s3 env (files s) p (bucket_name env) (uuid4 env @ ''.wav''))
      \<and> transcribe_audio env (uuid4 env) (s3_uri_of env) lang = Some (Some (JStr t), evs)
      \<and> strip t \<noteq> []
      \<and> fst (correct_and_translate env t lang) = [] \<longrightarrow>
    map_option (\<lambda>(r, s', tr). (r, s')) (process_audio env p lang s) =
      Some ([(''status'', JStr ''error''), (''message'', JStr ''Translation to English failed'')],
            s\<lparr>current_session_id := Some (uuid4 env)\<rparr>))"
proof (intro conjI impI)
  assume "validate_wav_file (files s) p = Inr True
      \<and> \<not> fst (upload_to_s3 env (files s) p (bucket_name env) (uuid4 env @ ''.wav''))"
  then show "map_option (\<lambda>(r, s', tr). (r, s')) (process_audio env p lang s) =
      Some ([(''status'', JStr ''error''), (''message'', JStr ''Failed to upload to S3'')],
            s\<lparr>current_session_id := Some (uuid4 env)\<rparr>)"
    by (simp add: process_audio_valid pipeline_upload_fails error_response_def)
next
  assume h: "validate_wav_file (files s) p = Inr True
      \<and> fst (upload_to_s3 env (files s) p (bucket_name env) (uuid4 env @ ''.wav''))
      \<and> transcribe_audio env (uuid4 env) (s3_uri_of env) lang = Some (src, evs)
      \<and> (src = None \<or> (\<exists>t. src = Some (JStr t) \<and> strip t = []))"
  then have b: "src = None \<or> (\<exists>t. src = Some (JStr t) \<and> strip t = [])" by simp
  from h show "map_option (\<lambda>(r, s', tr). (r, s')) (process_audio env p lang s) =
      Some ([(''status'', JStr ''error''), (''message'', JStr ''Transcription failed'')],
            s\<lparr>current_session_id := Some (uuid4 env)\<rparr>)"
    by (simp add: process_audio_valid pipeline_upload_ok transcript_stage_blank[OF b]
          error_response_def)
next
  assume h: "validate_wav_file (files s) p = Inr True
      \<and> fst (upload_to_s3 env (files s) p (bucket_name env) (uuid4 env @ ''.wav''))
      \<and> transcribe_audio env (uuid4 env) (s3_uri_of env) lang = Some (Some (JStr t), evs)
      \<and> strip t \<noteq> []
      \<and> fst (correct_and_translate env t lang) = []"
  then have u: "strip t \<noteq> []" and c: "fst (correct_and_translate env t lang) = []" by simp_all
  from c obtain cevs where ce: "correct_and_translate env t lang = ([], cevs)"
    by (cases "correct_and_translate env t lang") simp
  from h show "map_option (\<lambda>(r, s', tr). (r, s')) (process_audio env p lang s) =
      Some ([(''status'', JStr ''error''), (''message'', JStr ''Translation to English failed'')],
            s\<lparr>current_session_id := Some (uuid4 env)\<rparr>)"
    by (simp add: process_audio_valid pipeline_upload_ok transcript_stage_usable[OF u]
          correction_stage_def ce error_response_def)
qed

theorem failed_run_keeps_english_text_witness:
  "map_option (\<lambda>(r, s', tr). (r, s'))
      (process_audio s3_down_env ''uploads/recorded_audio.wav'' ''ta-IN'' recorded_state) =
      Some ([(''status'', JStr ''error''), (''message'', JStr ''Failed to upload to S3'')],
            recorded_state\<lparr>current_session_id := Some (uuid4 s3_down_env)\<rparr>)
   \<and> map_option (\<lambda>(r, s', tr). (r, s'))
      (process_audio (silence_env []) ''uploads/recorded_audio.wav'' ''ta-IN'' recorded_state) =
      Some ([(''status'', JStr ''error''), (''message'', JStr ''Transcription failed'')],
            recorded_state\<lparr>current_session_id := Some (uuid4 (silence_env []))\<rparr>)
   \<and> map_option (\<lambda>(r, s', tr). (r, s'))
      (process_audio blank_model_env ''uploads/recorded_audio.wav'' ''ta-IN'' recorded_state) =
      Some ([(''status'', JStr ''error''), (''message'', JStr ''Translation to English failed'')],
            recorded_state\<lparr>current_session_id := Some (uuid4 blank_model_env)\<rparr>)"
proof -
  let ?p = "''uploads/recorded_audio.wav''"
  have h1: "validate_wav_file (files recorded_state) ?p = Inr True
      \<and> \<not> fst (upload_to_s3 s3_down_env (files recorded_state) ?p (bucket_name s3_down_env)
                 (uuid4 s3_down_env @ ''.wav''))"
    by (simp add: validate_recorded upload_s3_down)
  have h2: "validate_wav_file (files recorded_state) ?p = Inr True
      \<and> fst (upload_to_s3 (silence_env []) (files recorded_state) ?p (bucket_name (silence_env []))
               (uuid4 (silence_env []) @ ''.wav''))
      \<and> transcribe_audio (silence_env []) (uuid4 (silence_env [])) (s3_uri_of (silence_env [])) ''ta-IN''
          = Some (None, [StartJob (uuid4 (silence_env [])) (s3_uri_of (silence_env [])) ''ta-IN'',
                         Poll 0, Sleep 5, Poll 1, Sleep 5, Poll 2,
                         FetchTranscript ''https://s3/transcript.json''])
      \<and> (None = None \<or> (\<exists>t. None = Some (JStr t) \<and> strip t = []))"
    by (simp add: validate_recorded upload_recorded silence_env_def
          transcribe_audio_scripted[where t = "[]"])
  have u3: "fst (upload_to_s3 blank_model_env (files recorded_state) ?p (bucket_name blank_model_env)
               (uuid4 blank_model_env @ ''.wav''))"
    by (rule upload_recorded) (simp add: blank_model_env_def)
  have t3: "transcribe_audio blank_model_env (uuid4 blank_model_env) (s3_uri_of blank_model_env) ''ta-IN''
          = Some (Some (JStr ''vanakkam''),
                  [StartJob (uuid4 blank_model_env) (s3_uri_of blank_model_env) ''ta-IN'',
                   Poll 0, Sleep 5, Poll 1, Sleep 5, Poll 2,
                   FetchTranscript ''https://s3/transcript.json''])"
    by (subst transcribe_audio_scripted[where t = "''vanakkam''"])
       (simp_all add: blank_model_env_def demo_env_def)
  have c3: "fst (correct_and_translate blank_model_env ''vanakkam'' ''ta-IN'') = []"
    by (simp add: blank_model_env_def demo_env_def correct_and_translate_def Let_def
          strip_def is_space_def)
  have s3: "strip ''vanakkam'' \<noteq> []" by (simp add: strip_def is_space_def)
  have h3: "validate_wav_file (files recorded_state) ?p = Inr True
      \<and> fst (upload_to_s3 blank_model_env (files recorded_state) ?p (bucket_name blank_model_env)
               (uuid4 blank_model_env @ ''.wav''))
      \<and> transcribe_audio blank_model_env (uuid4 blank_model_env) (s3_uri_of blank_model_env) ''ta-IN''
          = Some (Some (JStr ''vanakkam''),
                  [StartJob (uuid4 blank_model_env) (s3_uri_of blank_model_env) ''ta-IN'',
                   Poll 0, Sleep 5, Poll 1, Sleep 5, Poll 2,
                   FetchTranscript ''https://s3/transcript.json''])
      \<and> strip ''vanakkam'' \<noteq> []
      \<and> fst (correct_and_translate blank_model_env ''vanakkam'' ''ta-IN'') = []"
    by (intro conjI) (rule validate_recorded u3 t3 s3 c3)+
  note a = failed_run_keeps_english_text[THEN conjunct1, rule_format, OF h1, of "''ta-IN''"]
  note b = failed_run_keeps_english_text[THEN conjunct2, THEN conjunct1, rule_format, OF h2]
  note c = failed_run_keeps_english_text[THEN conjunct2, THEN conjunct2, rule_format, OF h3]
  show ?thesis by (intro conjI) (rule a b c)+
qed

subsection \<open>Failures that are reported as success\<close>

text \<open>
  C1. The call of the model raises during \<open>/stop-recording\<close>: \<open>correct_and_translate\<close>
  returns the string \<open>Error: 503 Service Unavailable\<close>, the response has status
  \<open>success\<close> with that string as \<open>english_text\<close>, and the string becomes the session
  text. The translation service answers \<open>/translate-to-language\<close> with status 500:
  \<open>translate_to_target_language\<close> returns \<open>Error: Translation failed.\<close>, and the
  response has status \<open>success\<close> with that string as \<open>translated_text\<close>.
\<close>

theorem error_sentinel_reported_as_success:
  "correct_and_translate gemini_down_env ''vanakkam'' ''ta-IN'' =
      (''Error: 503 Service Unavailable'',
       [ReadOntology, Generate (build_prompt ''@prefix : <urn:polyhouse#> .'' ''ta-IN'' ''vanakkam'')])
   \<and> stop_recording gemini_down_env (Some ''ta-IN'') idle_state =
       Some ([(''status'', JStr ''success''), (''source_text'', JStr ''vanakkam''),
              (''english_text'', JStr ''Error: 503 Service Unavailable'')],
             idle_state\<lparr>files := [''uploads/recorded_audio.wav'' \<mapsto> zero_frame_wav],
                        current_session_id := Some ''0f8fad5b-d9cb-469f-a165-70867728950e'',
                        current_english_text := Some ''Error: 503 Service Unavailable''\<rparr>,
             [CallValidate ''uploads/recorded_audio.wav'',
              CallUpload ''uploads/recorded_audio.wav'' (Some ''bucket'')
                ''0f8fad5b-d9cb-469f-a165-70867728950e.wav'',
              S3Put ''uploads/recorded_audio.wav'' (Some ''bucket'')
                ''0f8fad5b-d9cb-469f-a165-70867728950e.wav'',
              CallTranscribe ''0f8fad5b-d9cb-469f-a165-70867728950e''
                ''s3://bucket/0f8fad5b-d9cb-469f-a165-70867728950e.wav'' ''ta-IN'',
              StartJob ''0f8fad5b-d9cb-469f-a165-70867728950e''
                ''s3://bucket/0f8fad5b-d9cb-469f-a165-70867728950e.wav'' ''ta-IN'',
              Poll 0, Sleep 5, Poll 1, Sleep 5, Poll 2,
              FetchTranscript ''https://s3/transcript.json'',
              CallCorrect ''vanakkam'' ''ta-IN'', ReadOntology,
              Generate (build_prompt ''@prefix : <urn:polyhouse#> .'' ''ta-IN'' ''vanakkam'')])
   \<and> translate_to_target_language azure_down_env ''Hello'' (JStr ''hi'') =
       (JStr ''Error: Translation failed.'', [HttpPost ''Hello'' (JStr ''hi'')])
   \<and> translate_to_language azure_down_env (Inr (JObj [(''target_language'', JStr ''hi'')]))
        (idle_state\<lparr>current_english_text := Some ''Hello''\<rparr>) =
       ([(''status'', JStr ''success''),
         (''translated_text'', JStr ''Error: Translation failed.''),
         (''target_language'', JStr ''Hindi'')],
        idle_state\<lparr>current_english_text := Some ''Hello''\<rparr>,
        [CallTranslate ''Hello'' (JStr ''hi''), HttpPost ''Hello'' (JStr ''hi'')])"
proof -
  have c: "correct_and_translate gemini_down_env t lang =
      (''Error: 503 Service Unavailable'',
       [ReadOntology, Generate (build_prompt ''@prefix : <urn:polyhouse#> .'' lang t)])" for t lang
    by (simp add: correct_and_translate_def gemini_down_env_def demo_env_def Let_def)
  have u: "strip ''vanakkam'' \<noteq> []" by (simp add: strip_def is_space_def)
  have "stop_recording gemini_down_env (Some ''ta-IN'') idle_state =
      Some (transcript_stage gemini_down_env (Some (JStr ''vanakkam'')) ''ta-IN''
              (idle_state\<lparr>is_recording := False,
                 files := (files idle_state)(''uploads/recorded_audio.wav'' \<mapsto> zero_frame_wav),
                 current_session_id := Some (uuid4 gemini_down_env)\<rparr>)
              [CallValidate ''uploads/recorded_audio.wav'',
               CallUpload ''uploads/recorded_audio.wav'' (bucket_name gemini_down_env)
                 (uuid4 gemini_down_env @ ''.wav''),
               S3Put ''uploads/recorded_audio.wav'' (bucket_name gemini_down_env)
                 (uuid4 gemini_down_env @ ''.wav''),
               CallTranscribe (uuid4 gemini_down_env) (s3_uri_of gemini_down_env) ''ta-IN'',
               StartJob (uuid4 gemini_down_env) (s3_uri_of gemini_down_env) ''ta-IN'',
               Poll 0, Sleep 5, Poll 1, Sleep 5, Poll 2,
               FetchTranscript ''https://s3/transcript.json''])"
    by (subst stop_recording_scripted[where t = "''vanakkam''" and lang = "''ta-IN''"])
       (simp_all add: gemini_down_env_def idle_state_def demo_env_def)
  then have a: "stop_recording gemini_down_env (Some ''ta-IN'') idle_state =
       Some ([(''status'', JStr ''success''), (''source_text'', JStr ''vanakkam''),
              (''english_text'', JStr ''Error: 503 Service Unavailable'')],
             idle_state\<lparr>files := [''uploads/recorded_audio.wav'' \<mapsto> zero_frame_wav],
                        current_session_id := Some ''0f8fad5b-d9cb-469f-a165-70867728950e'',
                        current_english_text := Some ''Error: 503 Service Unavailable''\<rparr>,
             [CallValidate ''uploads/recorded_audio.wav'',
              CallUpload ''uploads/recorded_audio.wav'' (Some ''bucket'')
                ''0f8fad5b-d9cb-469f-a165-70867728950e.wav'',
              S3Put ''uploads/recorded_audio.wav'' (Some ''bucket'')
                ''0f8fad5b-d9cb-469f-a165-70867728950e.wav'',
              CallTranscribe ''0f8fad5b-d9cb-469f-a165-70867728950e''
                ''s3://bucket/0f8fad5b-d9cb-469f-a165-70867728950e.wav'' ''ta-IN'',
              StartJob ''0f8fad5b-d9cb-469f-a165-70867728950e''
                ''s3://bucket/0f8fad5b-d9cb-469f-a165-70867728950e.wav'' ''ta-IN'',
              Poll 0, Sleep 5, Poll 1, Sleep 5, Poll 2,
              FetchTranscript ''https://s3/transcript.json'',
              CallCorrect ''vanakkam'' ''ta-IN'', ReadOntology,
              Generate (build_prompt ''@prefix : <urn:polyhouse#> .'' ''ta-IN'' ''vanakkam'')])"
    by (simp add: transcript_stage_usable[OF u] correction_stage_def c)
       (simp add: gemini_down_env_def demo_env_def s3_uri_of_def py_str_def idle_state_def)
  have t: "translate_to_target_language azure_down_env ''Hello'' (JStr ''hi'') =
      (JStr ''Error: Translation failed.'', [HttpPost ''Hello'' (JStr ''hi'')])"
    by (simp add: translate_to_target_language_def azure_down_env_def demo_env_def Let_def)
  have b: "translate_to_language azure_down_env (Inr (JObj [(''target_language'', JStr ''hi'')]))
        (idle_state\<lparr>current_english_text := Some ''Hello''\<rparr>) =
       ([(''status'', JStr ''success''),
         (''translated_text'', JStr ''Error: Translation failed.''),
         (''target_language'', JStr ''Hindi'')],
        idle_state\<lparr>current_english_text := Some ''Hello''\<rparr>,
        [CallTranslate ''Hello'' (JStr ''hi''), HttpPost ''Hello'' (JStr ''hi'')])"
    by (simp add: translate_to_language_def bind_exn_def t SUPPORTED_OUTPUT_LANGUAGES_def
          idle_state_def)
  show ?thesis by (intro conjI) (rule c a t b)+
qed

subsection \<open>The session text between two recordings\<close>

lemma translate_to_target_language_events:
  "snd (translate_to_target_language env t l) = [HttpPost t l]"
  by (auto simp: translate_to_target_language_def Let_def split: sum.splits)

lemma translate_to_language_state: "fst (snd (translate_to_language env body s)) = s"
  by (simp add: translate_to_language_def Let_def case_prod_beta
        split: sum.splits option.splits)

lemma text_to_speech_route_state: "fst (snd (text_to_speech_route env body s)) = s"
  by (simp add: text_to_speech_route_def Let_def case_prod_beta
        split: sum.splits option.splits)

lemma translate_to_language_trace:
  "snd (snd (translate_to_language env body s)) = []
   \<or> (\<exists>e l. current_english_text s = Some e
          \<and> snd (snd (translate_to_language env body s)) = [CallTranslate e l, HttpPost e l])"
  by (simp add: translate_to_language_def Let_def case_prod_beta
        translate_to_target_language_events split: sum.splits option.splits)

lemma translate_to_language_uses:
  assumes "current_english_text s = Some e" "e \<noteq> []"
      and "map_of kvs ''target_language'' = Some l" "truthy l"
  shows "snd (snd (translate_to_language env (Inr (JObj kvs)) s)) = [CallTranslate e l, HttpPost e l]"
  using assms
  by (simp add: translate_to_language_def bind_exn_def Let_def case_prod_beta
        translate_to_target_language_events split: sum.splits)

lemma text_to_speech_events:
  "CallTranslate t l \<notin> set (snd (text_to_speech env x y))"
  by (simp add: text_to_speech_def Let_def split: sum.splits option.splits)

lemma text_to_speech_route_trace:
  "CallTranslate t l \<notin> set (snd (snd (text_to_speech_route env body s)))"
  by (simp add: text_to_speech_route_def Let_def case_prod_beta text_to_speech_events
        split: sum.splits option.splits)

lemma poll_loop_no_translate:
  assumes "poll_loop env name n tr = Some y"
  shows "CallTranslate t l \<in> set (snd y) \<longrightarrow> CallTranslate t l \<in> set tr"
  using assms
proof (induction env name n tr y rule: poll_loop.raw_induct[rotated 1, consumes 1])
  case (1 f env name n tr y)
  show ?case
  proof (cases "get_transcription_job env name n")
    case (Inl e)
    with 1(2) show ?thesis by auto
  next
    case (Inr j)
    show ?thesis
    proof (cases "TranscriptionJobStatus j = ''COMPLETED''")
      case True
      with Inr 1(2) have "snd y = tr @ [Poll n] @ snd (on_completed env j)"
        by (auto split: prod.splits)
      then show ?thesis by (auto simp: on_completed_def split: option.splits)
    next
      case nc: False
      show ?thesis
      proof (cases "TranscriptionJobStatus j = ''FAILED''")
        case True
        with nc Inr 1(2) show ?thesis by auto
      next
        case False
        with nc Inr 1(2) have "f env name (Suc n) (tr @ [Poll n, Sleep 5]) = Some y" by simp
        from 1(1)[OF this] show ?thesis by simp
      qed
    qed
  qed
qed

lemma transcribe_audio_no_translate:
  assumes "transcribe_audio env name uri lang = Some (src, evs)"
  shows "CallTranslate t l \<notin> set evs"
proof (cases "start_transcription_job env name uri lang")
  case (Some e)
  with assms show ?thesis by (auto simp: transcribe_audio_def)
next
  case None
  with assms obtain r where "poll_loop env name 0 [StartJob name uri lang] = Some (r, evs)"
    by (auto simp: transcribe_audio_def split: prod.splits)
  from poll_loop_no_translate[OF this] show ?thesis by auto
qed

lemma correct_and_translate_events:
  "CallTranslate t l \<notin> set (snd (correct_and_translate env x y))"
  by (simp add: correct_and_translate_def Let_def split: sum.splits gen_response.splits)

lemma correction_stage_trace:
  "snd (snd (correction_stage env x lang s tr))
     = tr @ [CallCorrect x lang] @ snd (correct_and_translate env x lang)"
  by (simp add: correction_stage_def Let_def case_prod_beta)

lemma transcript_stage_trace:
  "snd (snd (transcript_stage env src lang s tr)) = tr
   \<or> (\<exists>x. snd (snd (transcript_stage env src lang s tr))
            = tr @ [CallCorrect x lang] @ snd (correct_and_translate env x lang))"
  by (simp add: transcript_stage_def correction_stage_trace split: option.splits json.splits)

lemma transcript_stage_no_translate:
  assumes "transcript_stage env src lang s tr = (r, s', tr')"
      and "CallTranslate t l \<in> set tr'"
  shows "CallTranslate t l \<in> set tr"
proof -
  from assms(1) have "tr' = snd (snd (transcript_stage env src lang s tr))" by simp
  with transcript_stage_trace[of env src lang s tr]
  have "tr' = tr \<or> (\<exists>x. tr' = tr @ [CallCorrect x lang] @ snd (correct_and_translate env x lang))"
    by simp
  then show ?thesis
  proof
    assume "tr' = tr"
    with assms(2) show ?thesis by simp
  next
    assume "\<exists>x. tr' = tr @ [CallCorrect x lang] @ snd (correct_and_translate env x lang)"
    then obtain x where "tr' = tr @ [CallCorrect x lang] @ snd (correct_and_translate env x lang)" ..
    with assms(2) correct_and_translate_events[of t l env x lang] show ?thesis by simp
  qed
qed

lemma pipeline_no_translate:
  assumes "pipeline env p lang s tr = Some (r, s', tr')"
      and "CallTranslate t l \<in> set tr'"
  shows "CallTranslate t l \<in> set tr"
proof (cases "fst (upload_to_s3 env (files s) p (bucket_name env) (uuid4 env @ ''.wav''))")
  case False
  with assms upload_events[of env "files s" p "bucket_name env" "uuid4 env @ ''.wav''"]
  show ?thesis by (auto simp: pipeline_upload_fails)
next
  case True
  with assms(1) obtain src t_evs where
      ta: "transcribe_audio env (uuid4 env) (s3_uri_of env) lang = Some (src, t_evs)"
      and ts: "transcript_stage env src lang (s\<lparr>current_session_id := Some (uuid4 env)\<rparr>)
                  (tr @ [CallUpload p (bucket_name env) (uuid4 env @ ''.wav'')]
                      @ snd (upload_to_s3 env (files s) p (bucket_name env) (uuid4 env @ ''.wav''))
                      @ [CallTranscribe (uuid4 env) (s3_uri_of env) lang] @ t_evs) = (r, s', tr')"
    by (auto simp: pipeline_upload_ok split: option.splits)
  from transcript_stage_no_translate[OF ts assms(2)]
       transcribe_audio_no_translate[OF ta, of t l]
       upload_events[of env "files s" p "bucket_name env" "uuid4 env @ ''.wav''"]
  show ?thesis by auto
qed

lemma process_audio_no_translate:
  assumes "process_audio env p lang s = Some (r, s', tr)"
  shows "CallTranslate t l \<notin> set tr"
proof (cases "validate_wav_file (files s) p = Inr True")
  case False
  with assms have "tr = [CallValidate p]"
    by (auto simp: process_audio_def split: sum.splits if_splits)
  then show ?thesis by simp
next
  case True
  with assms have pl: "pipeline env p lang s [CallValidate p] = Some (r, s', tr)"
    by (simp add: process_audio_valid)
  show ?thesis using pipeline_no_translate[OF pl, of t l] by auto
qed

lemma process_audio_text:
  assumes "process_audio env p lang s = Some (r, s', tr)"
  shows "(status r = Some (JStr ''error'') \<and> current_english_text s' = current_english_text s)
         \<or> (\<exists>src e. e \<noteq> []
               \<and> r = [(''status'', JStr ''success''), (''source_text'', JStr src),
                       (''english_text'', JStr e)]
               \<and> current_english_text s' = Some e)"
proof (cases "validate_wav_file (files s) p = Inr True")
  case False
  with assms have "status r = Some (JStr ''error'') \<and> s' = s"
    by (auto simp: process_audio_def split: sum.splits if_splits)
  then show ?thesis by simp
next
  case True
  with assms have pl: "pipeline env p lang s [CallValidate p] = Some (r, s', tr)"
    by (simp add: process_audio_valid)
  from pipeline_result[OF pl]
  have "(status r = Some (JStr ''error'') \<and> s' = s\<lparr>current_session_id := Some (uuid4 env)\<rparr>)
            \<or> (\<exists>t evs. transcribe_audio env (uuid4 env) (s3_uri_of env) lang = Some (Some (JStr t), evs)
                  \<and> strip t \<noteq> []
                  \<and> fst (correct_and_translate env t lang) \<noteq> []
                  \<and> r = [(''status'', JStr ''success''), (''source_text'', JStr t),
                          (''english_text'', JStr (fst (correct_and_translate env t lang)))]
                  \<and> s' = s\<lparr>current_session_id := Some (uuid4 env),
                            current_english_text := Some (fst (correct_and_translate env t lang))\<rparr>)"
    by (rule conjunct2)
  then show ?thesis
  proof
    assume "status r = Some (JStr ''error'') \<and> s' = s\<lparr>current_session_id := Some (uuid4 env)\<rparr>"
    then show ?thesis by simp
  next
    assume "\<exists>t evs. transcribe_audio env (uuid4 env) (s3_uri_of env) lang = Some (Some (JStr t), evs)
                  \<and> strip t \<noteq> []
                  \<and> fst (correct_and_translate env t lang) \<noteq> []
                  \<and> r = [(''status'', JStr ''success''), (''source_text'', JStr t),
                          (''english_text'', JStr (fst (correct_and_translate env t lang)))]
                  \<and> s' = s\<lparr>current_session_id := Some (uuid4 env),
                            current_english_text := Some (fst (correct_and_translate env t lang))\<rparr>"
    then obtain t where
        ne: "fst (correct_and_translate env t lang) \<noteq> []"
        and r: "r = [(''status'', JStr ''success''), (''source_text'', JStr t),
                     (''english_text'', JStr (fst (correct_and_translate env t lang)))]"
        and s': "s' = s\<lparr>current_session_id := Some (uuid4 env),
                         current_english_text := Some (fst (correct_and_translate env t lang))\<rparr>"
      by blast
    from s' have "current_english_text s' = Some (fst (correct_and_translate env t lang))" by simp
    with ne r show ?thesis by blast
  qed
qed

lemma stop_recording_cases:
  "(\<exists>e content. stop_recording env form_language s =
        Some (exception_response e,
              s\<lparr>is_recording := False,
                 files := (files s)(''uploads/recorded_audio.wav'' \<mapsto> content)\<rparr>, []))
   \<or> (\<exists>content. stop_recording env form_language s =
         process_audio env ''uploads/recorded_audio.wav''
           (case form_language of None \<Rightarrow> ''te-IN'' | Some l \<Rightarrow> l)
           (s\<lparr>is_recording := False,
              files := (files s)(''uploads/recorded_audio.wav'' \<mapsto> content)\<rparr>))"
proof (cases "write_recorded_audio (concat (audio_frames s))")
  case (Pair raised content)
  show ?thesis
  proof (cases raised)
    case (Some e)
    with Pair have "stop_recording env form_language s =
        Some (exception_response e,
              s\<lparr>is_recording := False,
                 files := (files s)(''uploads/recorded_audio.wav'' \<mapsto> content)\<rparr>, [])"
      by (simp add: stop_recording_def Let_def)
    then show ?thesis by blast
  next
    case None
    with Pair have "write_recorded_audio (concat (audio_frames s)) = (None, content)" by simp
    from stop_recording_written[OF this] show ?thesis by blast
  qed
qed

lemma stop_recording_no_translate:
  assumes "stop_recording env form_language s = Some (r, s', tr)"
  shows "CallTranslate t l \<notin> set tr"
  using stop_recording_cases[of env form_language s]
proof (elim disjE exE)
  fix e content
  assume "stop_recording env form_language s =
        Some (exception_response e,
              s\<lparr>is_recording := False,
                 files := (files s)(''uploads/recorded_audio.wav'' \<mapsto> content)\<rparr>, [])"
  with assms show ?thesis by simp
next
  fix content
  assume "stop_recording env form_language s =
         process_audio env ''uploads/recorded_audio.wav''
           (case form_language of None \<Rightarrow> ''te-IN'' | Some l \<Rightarrow> l)
           (s\<lparr>is_recording := False,
              files := (files s)(''uploads/recorded_audio.wav'' \<mapsto> content)\<rparr>)"
  with assms have "process_audio env ''uploads/recorded_audio.wav''
           (case form_language of None \<Rightarrow> ''te-IN'' | Some l \<Rightarrow> l)
           (s\<lparr>is_recording := False,
              files := (files s)(''uploads/recorded_audio.wav'' \<mapsto> content)\<rparr>) = Some (r, s', tr)"
    by simp
  then show ?thesis by (rule process_audio_no_translate)
qed

lemma stop_recording_text:
  assumes "stop_recording env form_language s = Some (r, s', tr)"
  shows "(status r = Some (JStr ''error'') \<and> current_english_text s' = current_english_text s)
         \<or> (\<exists>src e. e \<noteq> []
               \<and> r = [(''status'', JStr ''success''), (''source_text'', JStr src),
                       (''english_text'', JStr e)]
               \<and> current_english_text s' = Some e)"
  using stop_recording_cases[of env form_language s]
proof (elim disjE exE)
  fix e content
  assume "stop_recording env form_language s =
        Some (exception_response e,
              s\<lparr>is_recording := False,
                 files := (files s)(''uploads/recorded_audio.wav'' \<mapsto> content)\<rparr>, [])"
  with assms have "r = exception_response e"
    and "s' = s\<lparr>is_recording := False,
                 files := (files s)(''uploads/recorded_audio.wav'' \<mapsto> content)\<rparr>"
    by simp_all
  then show ?thesis by simp
next
  fix content
  assume "stop_recording env form_language s =
         process_audio env ''uploads/recorded_audio.wav''
           (case form_language of None \<Rightarrow> ''te-IN'' | Some l \<Rightarrow> l)
           (s\<lparr>is_recording := False,
              files := (files s)(''uploads/recorded_audio.wav'' \<mapsto> content)\<rparr>)"
  with assms have "process_audio env ''uploads/recorded_audio.wav''
           (case form_language of None \<Rightarrow> ''te-IN'' | Some l \<Rightarrow> l)
           (s\<lparr>is_recording := False,
              files := (files s)(''uploads/recorded_audio.wav'' \<mapsto> content)\<rparr>) = Some (r, s', tr)"
    by simp
  from process_audio_text[OF this] show ?thesis by simp
qed

lemma handle_uses_text:
  assumes "handle env rq s = Some (r, s1, tr)"
      and "\<forall>fl. rq = StopRecording fl \<longrightarrow> status r \<noteq> Some (JStr ''success'')"
      and "current_english_text s = Some e" "e \<noteq> []"
  shows "current_english_text s1 = Some e
         \<and> (\<forall>t l. CallTranslate t l \<in> set tr \<longrightarrow> t = e)
         \<and> (\<forall>kvs l. rq = TranslateToLanguage (Inr (JObj kvs))
                \<and> map_of kvs ''target_language'' = Some l \<and> truthy l \<longrightarrow>
              tr = [CallTranslate e l, HttpPost e l])"
proof (cases rq)
  case (StopRecording fl)
  with assms(1) have sr: "stop_recording env fl s = Some (r, s1, tr)" by simp
  from assms(2) StopRecording have ns: "status r \<noteq> Some (JStr ''success'')" by simp
  have nt: "\<forall>t l. CallTranslate t l \<notin> set tr"
    using stop_recording_no_translate[OF sr] by blast
  from stop_recording_text[OF sr] have "current_english_text s1 = current_english_text s"
  proof
    assume "status r = Some (JStr ''error'') \<and> current_english_text s1 = current_english_text s"
    then show ?thesis by simp
  next
    assume "\<exists>src e. e \<noteq> []
               \<and> r = [(''status'', JStr ''success''), (''source_text'', JStr src),
                       (''english_text'', JStr e)]
               \<and> current_english_text s1 = Some e"
    then have "status r = Some (JStr ''success'')" by (auto simp: status_def)
    with ns show ?thesis by simp
  qed
  with nt assms(3) StopRecording show ?thesis by simp
next
  case (TranslateToLanguage body)
  with assms(1) have t: "translate_to_language env body s = (r, s1, tr)" by simp
  from t translate_to_language_state[of env body s] have s1: "s1 = s" by simp
  from t translate_to_language_trace[of env body s] assms(3)
  have a: "\<forall>t l. CallTranslate t l \<in> set tr \<longrightarrow> t = e" by auto
  have b: "tr = [CallTranslate e l, HttpPost e l]"
    if "body = Inr (JObj kvs)" "map_of kvs ''target_language'' = Some l" "truthy l" for kvs l
    using translate_to_language_uses[OF assms(3,4) that(2,3), of env] t that(1) by simp
  from s1 a b assms(3) TranslateToLanguage show ?thesis by blast
next
  case (TextToSpeech body)
  with assms(1) have t: "text_to_speech_route env body s = (r, s1, tr)" by simp
  from t text_to_speech_route_state[of env body s] have "s1 = s" by simp
  moreover from t text_to_speech_route_trace[of _ _ env body s]
  have "\<forall>t l. CallTranslate t l \<notin> set tr" by simp
  ultimately show ?thesis using assms(3) TextToSpeech by simp
qed

lemma run_uses_text:
  assumes "run rqs s = Some (outs, s')"
      and "list_all2 (\<lambda>(env, rq) (r, tr).
              \<forall>fl. rq = StopRecording fl \<longrightarrow> status r \<noteq> Some (JStr ''success'')) rqs outs"
      and "current_english_text s = Some e" "e \<noteq> []"
  shows "current_english_text s' = Some e
         \<and> list_all2 (\<lambda>(env, rq) (r, tr).
              (\<forall>t l. CallTranslate t l \<in> set tr \<longrightarrow> t = e)
              \<and> (\<forall>kvs l. rq = TranslateToLanguage (Inr (JObj kvs))
                     \<and> map_of kvs ''target_language'' = Some l \<and> truthy l \<longrightarrow>
                   tr = [CallTranslate e l, HttpPost e l])) rqs outs"
  using assms
proof (induction rqs arbitrary: s outs)
  case Nil
  then show ?case by simp
next
  case (Cons a rqs)
  obtain env rq where a: "a = (env, rq)" by (cases a)
  from Cons.prems(1) a obtain r s1 tr outs' where
      h: "handle env rq s = Some (r, s1, tr)"
      and rest: "run rqs s1 = Some (outs', s')"
      and outs: "outs = (r, tr) # outs'"
    by (auto split: option.splits)
  from Cons.prems(2) a outs have
      hd: "\<forall>fl. rq = StopRecording fl \<longrightarrow> status r \<noteq> Some (JStr ''success'')"
      and tl: "list_all2 (\<lambda>(env, rq) (r, tr).
              \<forall>fl. rq = StopRecording fl \<longrightarrow> status r \<noteq> Some (JStr ''success'')) rqs outs'"
    by simp_all
  note u = handle_uses_text[OF h hd Cons.prems(3,4)]
  from u have s1: "current_english_text s1 = Some e" by simp
  note ih = Cons.IH[OF rest tl s1 Cons.prems(4)]
  from ih have "current_english_text s' = Some e" by simp
  moreover from ih u a outs have "list_all2 (\<lambda>(env, rq) (r, tr).
              (\<forall>t l. CallTranslate t l \<in> set tr \<longrightarrow> t = e)
              \<and> (\<forall>kvs l. rq = TranslateToLanguage (Inr (JObj kvs))
                     \<and> map_of kvs ''target_language'' = Some l \<and> truthy l \<longrightarrow>
                   tr = [CallTranslate e l, HttpPost e l])) (a # rqs) outs"
    by auto
  ultimately show ?case by simp
qed

lemma stop_recording_demo:
  "stop_recording demo_env (Some ''ta-IN'') idle_state =
       Some ([(''status'', JStr ''success''), (''source_text'', JStr ''vanakkam''),
              (''english_text'', JStr ''Hello'')],
             hello_state,
             [CallValidate ''uploads/recorded_audio.wav'',
              CallUpload ''uploads/recorded_audio.wav'' (Some ''bucket'')
                ''0f8fad5b-d9cb-469f-a165-70867728950e.wav'',
              S3Put ''uploads/recorded_audio.wav'' (Some ''bucket'')
                ''0f8fad5b-d9cb-469f-a165-70867728950e.wav'',
              CallTranscribe ''0f8fad5b-d9cb-469f-a165-70867728950e''
                ''s3://bucket/0f8fad5b-d9cb-469f-a165-70867728950e.wav'' ''ta-IN'',
              StartJob ''0f8fad5b-d9cb-469f-a165-70867728950e''
                ''s3://bucket/0f8fad5b-d9cb-469f-a165-70867728950e.wav'' ''ta-IN'',
              Poll 0, Sleep 5, Poll 1, Sleep 5, Poll 2,
              FetchTranscript ''https://s3/transcript.json'',
              CallCorrect ''vanakkam'' ''ta-IN'', ReadOntology,
              Generate (build_prompt ''@prefix : <urn:polyhouse#> .'' ''ta-IN'' ''vanakkam'')])"
  by (subst stop_recording_scripted[where t = "''vanakkam''" and lang = "''ta-IN''"])
     (simp_all add: demo_env_def transcript_stage_def strip_def is_space_def
        correction_stage_def correct_and_translate_demo[unfolded demo_env_def]
        s3_uri_of_def py_str_def idle_state_def hello_state_def)

lemma translate_demo:
  "l \<in> {''hi'', ''ta''} \<Longrightarrow>
   translate_to_language demo_env (Inr (JObj [(''target_language'', JStr l)])) hello_state =
     ([(''status'', JStr ''success''), (''translated_text'', JStr ''namaste''),
       (''target_language'', JStr (if l = ''hi'' then ''Hindi'' else ''Tamil''))],
      hello_state, [CallTranslate ''Hello'' (JStr l), HttpPost ''Hello'' (JStr l)])"
  by (auto simp: translate_to_language_def bind_exn_def translate_to_target_language_def
        demo_env_def hello_state_def idle_state_def Let_def SUPPORTED_OUTPUT_LANGUAGES_def)

lemma speech_demo:
  "text_to_speech_route demo_env
     (Inr (JObj [(''text'', JStr ''namaste''), (''target_language'', JStr ''hi'')])) hello_state =
     ([(''status'', JStr ''success''),
       (''audio_url'', JStr ''/static/audio/output_0f8fad5b-d9cb-469f-a165-70867728950e.wav'')],
      hello_state,
      [CallTTS (JStr ''namaste'') (JStr ''hi''),
       Speak ''hi-IN-Kalpana'' ''static/audio/output_0f8fad5b-d9cb-469f-a165-70867728950e.wav''
         (JStr ''namaste'')])"
  by (simp add: text_to_speech_route_def bind_exn_def text_to_speech_def demo_env_def
        Let_def AZURE_TTS_VOICES_def)

lemma failed_stop_demo:
  "stop_recording s3_down_env None hello_state =
     Some ([(''status'', JStr ''error''), (''message'', JStr ''Failed to upload to S3'')],
           hello_state,
           [CallValidate ''uploads/recorded_audio.wav'',
            CallUpload ''uploads/recorded_audio.wav'' (Some ''bucket'')
              ''0f8fad5b-d9cb-469f-a165-70867728950e.wav'',
            S3Put ''uploads/recorded_audio.wav'' (Some ''bucket'')
              ''0f8fad5b-d9cb-469f-a165-70867728950e.wav''])"
proof -
  let ?p = "''uploads/recorded_audio.wav''"
  let ?s1 = "hello_state\<lparr>is_recording := False, files := (files hello_state)(?p \<mapsto> zero_frame_wav)\<rparr>"
  have s1: "?s1 = hello_state" by (simp add: hello_state_def idle_state_def)
  have w: "write_recorded_audio (concat (audio_frames hello_state)) = (None, zero_frame_wav)"
    by (simp add: hello_state_def idle_state_def write_zero_frames)
  have up: "upload_to_s3 s3_down_env (fs(?p \<mapsto> c)) ?p b k = (False, [S3Put ?p b k])" for fs c b k
    by (simp add: upload_to_s3_def s3_down_env_def demo_env_def)
  have "stop_recording s3_down_env None hello_state = process_audio s3_down_env ?p ''te-IN'' ?s1"
    using stop_recording_written[OF w, of s3_down_env None] by simp
  also have "\<dots> = pipeline s3_down_env ?p ''te-IN'' ?s1 [CallValidate ?p]"
    by (intro process_audio_valid) (simp add: validate_zero_frame)
  also have "\<dots> = Some (error_response ''Failed to upload to S3'',
           ?s1\<lparr>current_session_id := Some (uuid4 s3_down_env)\<rparr>,
           [CallValidate ?p] @ [CallUpload ?p (bucket_name s3_down_env) (uuid4 s3_down_env @ ''.wav'')]
              @ snd (upload_to_s3 s3_down_env (files ?s1) ?p (bucket_name s3_down_env)
                       (uuid4 s3_down_env @ ''.wav'')))"
    by (rule pipeline_upload_fails) (simp add: up)
  finally show ?thesis
    by (simp add: up error_response_def)
       (simp add: s3_down_env_def demo_env_def hello_state_def idle_state_def)
qed

text \<open>
  C3. \<open>/translate-to-language\<close> and \<open>/text-to-speech\<close> return the state they were given.
  When \<open>/stop-recording\<close> answers with status \<open>success\<close>, the \<open>english_text\<close> \<open>e\<close> of its
  response is not empty and is the session text of the state it leaves; and after any
  sequence of further requests none of which is a \<open>/stop-recording\<close> answered with
  status \<open>success\<close>, the session text is still \<open>e\<close>, every call of
  \<open>translate_to_target_language\<close> made while the requests were served was given \<open>e\<close>,
  and every \<open>/translate-to-language\<close> request whose body is a JSON object with a
  non-empty target language made exactly that call, with \<open>e\<close>.
\<close>

theorem session_text_persists:
  "fst (snd (translate_to_language env body s)) = s
   \<and> fst (snd (text_to_speech_route env body s)) = s
   \<and> (stop_recording env0 form_language s0 = Some (r0, s1, tr0)
        \<and> status r0 = Some (JStr ''success'')
        \<and> run rqs s1 = Some (outs, s2)
        \<and> list_all2 (\<lambda>(env, rq) (r, tr).
              \<forall>fl. rq = StopRecording fl \<longrightarrow> status r \<noteq> Some (JStr ''success'')) rqs outs
      \<longrightarrow> (\<exists>e. e \<noteq> [] \<and> map_of r0 ''english_text'' = Some (JStr e)
              \<and> current_english_text s1 = Some e
              \<and> current_english_text s2 = Some e
              \<and> list_all2 (\<lambda>(env, rq) (r, tr).
                    (\<forall>t l. CallTranslate t l \<in> set tr \<longrightarrow> t = e)
                    \<and> (\<forall>kvs l. rq = TranslateToLanguage (Inr (JObj kvs))
                           \<and> map_of kvs ''target_language'' = Some l \<and> truthy l \<longrightarrow>
                         tr = [CallTranslate e l, HttpPost e l])) rqs outs))"
proof (intro conjI impI)
  show "fst (snd (translate_to_language env body s)) = s"
    by (rule translate_to_language_state)
  show "fst (snd (text_to_speech_route env body s)) = s"
    by (rule text_to_speech_route_state)
next
  assume h: "stop_recording env0 form_language s0 = Some (r0, s1, tr0)
        \<and> status r0 = Some (JStr ''success'')
        \<and> run rqs s1 = Some (outs, s2)
        \<and> list_all2 (\<lambda>(env, rq) (r, tr).
              \<forall>fl. rq = StopRecording fl \<longrightarrow> status r \<noteq> Some (JStr ''success'')) rqs outs"
  then have sr: "stop_recording env0 form_language s0 = Some (r0, s1, tr0)"
    and ok: "status r0 = Some (JStr ''success'')"
    and rn: "run rqs s1 = Some (outs, s2)"
    and ns: "list_all2 (\<lambda>(env, rq) (r, tr).
              \<forall>fl. rq = StopRecording fl \<longrightarrow> status r \<noteq> Some (JStr ''success'')) rqs outs"
    by simp_all
  from stop_recording_text[OF sr] ok obtain src e where
      e: "e \<noteq> []"
      and r0: "r0 = [(''status'', JStr ''success''), (''source_text'', JStr src),
                     (''english_text'', JStr e)]"
      and s1: "current_english_text s1 = Some e"
    by auto
  from r0 have m: "map_of r0 ''english_text'' = Some (JStr e)" by simp
  note u = run_uses_text[OF rn ns s1 e]
  from u have s2: "current_english_text s2 = Some e" by (rule conjunct1)
  from u have l: "list_all2 (\<lambda>(env, rq) (r, tr).
                    (\<forall>t l. CallTranslate t l \<in> set tr \<longrightarrow> t = e)
                    \<and> (\<forall>kvs l. rq = TranslateToLanguage (Inr (JObj kvs))
                           \<and> map_of kvs ''target_language'' = Some l \<and> truthy l \<longrightarrow>
                         tr = [CallTranslate e l, HttpPost e l])) rqs outs"
    by (rule conjunct2)
  from e m s1 s2 l
  show "\<exists>e. e \<noteq> [] \<and> map_of r0 ''english_text'' = Some (JStr e)
              \<and> current_english_text s1 = Some e
              \<and> current_english_text s2 = Some e
              \<and> list_all2 (\<lambda>(env, rq) (r, tr).
                    (\<forall>t l. CallTranslate t l \<in> set tr \<longrightarrow> t = e)
                    \<and> (\<forall>kvs l. rq = TranslateToLanguage (Inr (JObj kvs))
                           \<and> map_of kvs ''target_language'' = Some l \<and> truthy l \<longrightarrow>
                         tr = [CallTranslate e l, HttpPost e l])) rqs outs"
    by (intro exI[of _ e] conjI)
qed

theorem session_text_persists_witness:
  "stop_recording demo_env (Some ''ta-IN'') idle_state =
       Some ([(''status'', JStr ''success''), (''source_text'', JStr ''vanakkam''),
              (''english_text'', JStr ''Hello'')],
             hello_state,
             [CallValidate ''uploads/recorded_audio.wav'',
              CallUpload ''uploads/recorded_audio.wav'' (Some ''bucket'')
                ''0f8fad5b-d9cb-469f-a165-70867728950e.wav'',
              S3Put ''uploads/recorded_audio.wav'' (Some ''bucket'')
                ''0f8fad5b-d9cb-469f-a165-70867728950e.wav'',
              CallTranscribe ''0f8fad5b-d9cb-469f-a165-70867728950e''
                ''s3://bucket/0f8fad5b-d9cb-469f-a165-70867728950e.wav'' ''ta-IN'',
              StartJob ''0f8fad5b-d9cb-469f-a165-70867728950e''
                ''s3://bucket/0f8fad5b-d9cb-469f-a165-70867728950e.wav'' ''ta-IN'',
              Poll 0, Sleep 5, Poll 1, Sleep 5, Poll 2,
              FetchTranscript ''https://s3/transcript.json'',
              CallCorrect ''vanakkam'' ''ta-IN'', ReadOntology,
              Generate (build_prompt ''@prefix : <urn:polyhouse#> .'' ''ta-IN'' ''vanakkam'')])
   \<and> run session_requests hello_state =
       Some ([([(''status'', JStr ''success''), (''translated_text'', JStr ''namaste''),
                (''target_language'', JStr ''Hindi'')],
               [CallTranslate ''Hello'' (JStr ''hi''), HttpPost ''Hello'' (JStr ''hi'')]),
              ([(''status'', JStr ''success''),
                (''audio_url'', JStr ''/static/audio/output_0f8fad5b-d9cb-469f-a165-70867728950e.wav'')],
               [CallTTS (JStr ''namaste'') (JStr ''hi''),
                Speak ''hi-IN-Kalpana'' ''static/audio/output_0f8fad5b-d9cb-469f-a165-70867728950e.wav''
                  (JStr ''namaste'')]),
              ([(''status'', JStr ''error''), (''message'', JStr ''Failed to upload to S3'')],
               [CallValidate ''uploads/recorded_audio.wav'',
                CallUpload ''uploads/recorded_audio.wav'' (Some ''bucket'')
                  ''0f8fad5b-d9cb-469f-a165-70867728950e.wav'',
                S3Put ''uploads/recorded_audio.wav'' (Some ''bucket'')
                  ''0f8fad5b-d9cb-469f-a165-70867728950e.wav'']),
              ([(''status'', JStr ''success''), (''translated_text'', JStr ''namaste''),
                (''target_language'', JStr ''Tamil'')],
               [CallTranslate ''Hello'' (JStr ''ta''), HttpPost ''Hello'' (JStr ''ta'')])],
             hello_state)
   \<and> current_english_text hello_state = Some ''Hello''"
proof -
  let ?r0 = "[(''status'', JStr ''success''), (''source_text'', JStr ''vanakkam''),
              (''english_text'', JStr ''Hello'')]"
  let ?outs = "[([(''status'', JStr ''success''), (''translated_text'', JStr ''namaste''),
                (''target_language'', JStr ''Hindi'')],
               [CallTranslate ''Hello'' (JStr ''hi''), HttpPost ''Hello'' (JStr ''hi'')]),
              ([(''status'', JStr ''success''),
                (''audio_url'', JStr ''/static/audio/output_0f8fad5b-d9cb-469f-a165-70867728950e.wav'')],
               [CallTTS (JStr ''namaste'') (JStr ''hi''),
                Speak ''hi-IN-Kalpana'' ''static/audio/output_0f8fad5b-d9cb-469f-a165-70867728950e.wav''
                  (JStr ''namaste'')]),
              ([(''status'', JStr ''error''), (''message'', JStr ''Failed to upload to S3'')],
               [CallValidate ''uploads/recorded_audio.wav'',
                CallUpload ''uploads/recorded_audio.wav'' (Some ''bucket'')
                  ''0f8fad5b-d9cb-469f-a165-70867728950e.wav'',
                S3Put ''uploads/recorded_audio.wav'' (Some ''bucket'')
                  ''0f8fad5b-d9cb-469f-a165-70867728950e.wav'']),
              ([(''status'', JStr ''success''), (''translated_text'', JStr ''namaste''),
                (''target_language'', JStr ''Tamil'')],
               [CallTranslate ''Hello'' (JStr ''ta''), HttpPost ''Hello'' (JStr ''ta'')])]"
  note sr = stop_recording_demo
  have ok: "status ?r0 = Some (JStr ''success'')" by (simp add: status_def)
  have rn: "run session_requests hello_state = Some (?outs, hello_state)"
    by (simp add: session_requests_def translate_demo speech_demo failed_stop_demo)
  have ns: "list_all2 (\<lambda>(env, rq) (r, tr).
              \<forall>fl. rq = StopRecording fl \<longrightarrow> status r \<noteq> Some (JStr ''success''))
              session_requests ?outs"
    by (simp add: session_requests_def status_def)
  from session_text_persists[THEN conjunct2, THEN conjunct2, rule_format,
          OF conjI[OF sr conjI[OF ok conjI[OF rn ns]]]]
  obtain e where "map_of ?r0 ''english_text'' = Some (JStr e)"
      and "current_english_text hello_state = Some e"
    by blast
  then have t: "current_english_text hello_state = Some ''Hello''" by simp
  show ?thesis by (intro conjI) (rule sr rn t)+
qed

end
